theory Spec2Isabelle
  imports Main
begin

section \<open>Values of the request payload\<close>

text \<open>
  The controllers read their input from \<^verbatim>\<open>req.body\<close>, the request's JSON document as
  parsed by \<^verbatim>\<open>express.json()\<close>. TypeScript's types are erased at run time, so a field of
  the payload (and therefore a field of a stored row) can hold any JSON value; a field that is
  absent from the payload is read as \<^verbatim>\<open>undefined\<close> by the destructuring
  \<^verbatim>\<open>const { title, ... } = req.body\<close>.

  A number is held as the text that \<^verbatim>\<open>Number.prototype.toString\<close> prints for it (\<^verbatim>\<open>7\<close>,
  \<^verbatim>\<open>1.5\<close>, \<^verbatim>\<open>1e+21\<close>; both zeros print as \<^verbatim>\<open>0\<close>): the controllers look at a number only
  through its truthiness and through that text. An object is held as its own members.
\<close>

datatype json =
    JUndefined
  | JNull
  | JBool bool
  | JNum string
  | JStr string
  | JArr "json list"
  | JObj "(string \<times> json) list"

text \<open>The request body as property lookup: \<open>body ''title''\<close> is \<^verbatim>\<open>req.body.title\<close>.\<close>

type_synonym body = "string \<Rightarrow> json"

text \<open>
  The body parsed from a JSON object given by its members in order: a repeated key takes its
  last value, a key that does not occur reads as \<^verbatim>\<open>undefined\<close>.
\<close>

definition body_of :: "(string \<times> json) list \<Rightarrow> body" where
  "body_of kvs k = (case map_of (rev kvs) k of None \<Rightarrow> JUndefined | Some v \<Rightarrow> v)"

text \<open>JavaScript's ToBoolean, as used by \<^verbatim>\<open>!x\<close> and \<^verbatim>\<open>if (x)\<close>.\<close>

fun truthy :: "json \<Rightarrow> bool" where
  "truthy JUndefined = False"
| "truthy JNull = False"
| "truthy (JBool b) = b"
| "truthy (JNum t) = (t \<noteq> ''0'')"
| "truthy (JStr s) = (s \<noteq> [])"
| "truthy (JArr xs) = True"
| "truthy (JObj kvs) = True"

text \<open>\<^verbatim>\<open>Array.isArray(x)\<close> and, for an array, its elements.\<close>

fun isArray :: "json \<Rightarrow> bool" where
  "isArray (JArr xs) = True"
| "isArray j = False"

fun elements :: "json \<Rightarrow> json list" where
  "elements (JArr xs) = xs"
| "elements j = []"

text \<open>\<^verbatim>\<open>parts.join(sep)\<close> on strings.\<close>

fun intercalate :: "string \<Rightarrow> string list \<Rightarrow> string" where
  "intercalate sep [] = []"
| "intercalate sep [s] = s"
| "intercalate sep (s # t # ss) = s @ sep @ intercalate sep (t # ss)"

text \<open>
  JavaScript's ToString on a payload value; \<open>None\<close> is a thrown \<^verbatim>\<open>TypeError\<close>. An array
  prints as its elements joined by a comma, where \<^verbatim>\<open>null\<close> and \<^verbatim>\<open>undefined\<close> elements print
  as the empty string, and throws when an element does. An object prints through
  \<^verbatim>\<open>Object.prototype.toString\<close> as \<^verbatim>\<open>[object Object]\<close>, unless it has a member of its own
  named \<^verbatim>\<open>toString\<close>: a parsed member is never a function, \<^verbatim>\<open>valueOf\<close> does not give a
  primitive either, and the conversion throws.
\<close>

fun js_toString :: "json \<Rightarrow> string option" where
  "js_toString JUndefined = Some ''undefined''"
| "js_toString JNull = Some ''null''"
| "js_toString (JBool b) = Some (if b then ''true'' else ''false'')"
| "js_toString (JNum t) = Some t"
| "js_toString (JStr s) = Some s"
| "js_toString (JArr xs) =
     map_option (intercalate '','')
       (those (map (\<lambda>x. if x = JUndefined \<or> x = JNull then Some [] else js_toString x) xs))"
| "js_toString (JObj kvs) =
     (if ''toString'' \<in> set (map fst kvs) then None else Some ''[object Object]'')"

text \<open>
  \<^verbatim>\<open>xs.join(sep)\<close> on an array of payload values; \<open>None\<close> is a thrown \<^verbatim>\<open>TypeError\<close>.
\<close>

definition js_join :: "string \<Rightarrow> json list \<Rightarrow> string option" where
  "js_join sep xs =
     map_option (intercalate sep)
       (those (map (\<lambda>x. if x = JUndefined \<or> x = JNull then Some [] else js_toString x) xs))"

section \<open>Data model\<close>

text \<open>
  The four interfaces of the models module. The identifier is a string (it comes from
  \<^verbatim>\<open>generateId\<close> or from the sample data); every other field holds what the payload held.
  An optional field (\<^verbatim>\<open>lastName?\<close>, \<^verbatim>\<open>deathDate?\<close>, \<^verbatim>\<open>dueBackDate?\<close>) that is not set is
  \<open>JUndefined\<close>. The field \<^verbatim>\<open>id\<close> is named per record, \<open>id\<close> being HOL's identity function.
\<close>

record author =
  author_id :: string
  firstName :: json
  lastName :: json
  birthDate :: json
  deathDate :: json

record genre =
  genre_id :: string
  name :: json

record bookCopy =
  copy_id :: string
  bookId :: json
  imprint :: json
  status :: json
  dueBackDate :: json

record book =
  book_id :: string
  title :: json
  authorIds :: json
  genreIds :: json
  isbn :: json
  summary :: json

text \<open>
  \<^verbatim>\<open>Partial<T>\<close>: every property may be missing from the object (\<open>None\<close>) or present with a
  value (\<open>Some v\<close>, where \<open>v\<close> may be \<open>JUndefined\<close>: a property that is present and holds
  \<^verbatim>\<open>undefined\<close>).
\<close>

record partial_author =
  set_author_id :: "string option"
  set_firstName :: "json option"
  set_lastName :: "json option"
  set_birthDate :: "json option"
  set_deathDate :: "json option"

record partial_genre =
  set_genre_id :: "string option"
  set_name :: "json option"

record partial_bookCopy =
  set_copy_id :: "string option"
  set_bookId :: "json option"
  set_imprint :: "json option"
  set_status :: "json option"
  set_dueBackDate :: "json option"

record partial_book =
  set_book_id :: "string option"
  set_title :: "json option"
  set_authorIds :: "json option"
  set_genreIds :: "json option"
  set_isbn :: "json option"
  set_summary :: "json option"

text \<open>The in-memory storage: the four module-level arrays.\<close>

record store =
  books :: "book list"
  authors :: "author list"
  genres :: "genre list"
  bookCopies :: "bookCopy list"

definition empty_store :: store where
  "empty_store = \<lparr>books = [], authors = [], genres = [], bookCopies = []\<rparr>"

section \<open>Storage operations\<close>

text \<open>
  \<^verbatim>\<open>Math.random().toString(36).substr(2, 9)\<close>: the argument is the base-36 text of the random
  number (such as \<^verbatim>\<open>0.i\<close> for one half, or \<^verbatim>\<open>0\<close> for zero); the identifier is the text from
  its third character on, nine characters at most.
\<close>

definition generateId :: "string \<Rightarrow> string" where
  "generateId rnd = take 9 (drop 2 rnd)"

text \<open>\<^verbatim>\<open>xs.findIndex(p)\<close>: the first index whose element satisfies \<open>p\<close>; \<open>None\<close> is \<^verbatim>\<open>-1\<close>.\<close>

fun findIndex :: "('a \<Rightarrow> bool) \<Rightarrow> 'a list \<Rightarrow> nat option" where
  "findIndex p [] = None"
| "findIndex p (x # xs) = (if p x then Some 0 else map_option Suc (findIndex p xs))"

text \<open>\<^verbatim>\<open>xs.splice(index, 1)\<close>: the array without the element at \<open>index\<close>.\<close>

definition splice1 :: "nat \<Rightarrow> 'a list \<Rightarrow> 'a list" where
  "splice1 k xs = take k xs @ drop (Suc k) xs"

text \<open>
  The lookups compare with \<^verbatim>\<open>===\<close>. The controllers call them with the path parameter (a
  string) and with values taken from the payload (any JSON value), so the argument is a
  payload value: it matches a row exactly when it is the string that is the row's id.
\<close>

definition findBookById :: "store \<Rightarrow> json \<Rightarrow> book option" where
  "findBookById st i = find (\<lambda>b. JStr (book_id b) = i) (books st)"

definition findAuthorById :: "store \<Rightarrow> json \<Rightarrow> author option" where
  "findAuthorById st i = find (\<lambda>a. JStr (author_id a) = i) (authors st)"

definition findGenreById :: "store \<Rightarrow> json \<Rightarrow> genre option" where
  "findGenreById st i = find (\<lambda>g. JStr (genre_id g) = i) (genres st)"

definition findBookCopyById :: "store \<Rightarrow> json \<Rightarrow> bookCopy option" where
  "findBookCopyById st i = find (\<lambda>c. JStr (copy_id c) = i) (bookCopies st)"

definition addBook :: "store \<Rightarrow> book \<Rightarrow> store" where
  "addBook st b = st\<lparr>books := books st @ [b]\<rparr>"

definition addAuthor :: "store \<Rightarrow> author \<Rightarrow> store" where
  "addAuthor st a = st\<lparr>authors := authors st @ [a]\<rparr>"

definition addGenre :: "store \<Rightarrow> genre \<Rightarrow> store" where
  "addGenre st g = st\<lparr>genres := genres st @ [g]\<rparr>"

definition addBookCopy :: "store \<Rightarrow> bookCopy \<Rightarrow> store" where
  "addBookCopy st c = st\<lparr>bookCopies := bookCopies st @ [c]\<rparr>"

text \<open>
  The object spread \<^verbatim>\<open>{ ...row, ...partial }\<close>: a property of the partial object that is
  present replaces the row's, whatever its value; a missing one leaves the row's.
\<close>

definition overwrite :: "'a \<Rightarrow> 'a option \<Rightarrow> 'a" where
  "overwrite old p = (case p of None \<Rightarrow> old | Some v \<Rightarrow> v)"

definition spread_book :: "book \<Rightarrow> partial_book \<Rightarrow> book" where
  "spread_book b p =
     \<lparr>book_id = overwrite (book_id b) (set_book_id p),
      title = overwrite (title b) (set_title p),
      authorIds = overwrite (authorIds b) (set_authorIds p),
      genreIds = overwrite (genreIds b) (set_genreIds p),
      isbn = overwrite (isbn b) (set_isbn p),
      summary = overwrite (summary b) (set_summary p)\<rparr>"

definition spread_author :: "author \<Rightarrow> partial_author \<Rightarrow> author" where
  "spread_author a p =
     \<lparr>author_id = overwrite (author_id a) (set_author_id p),
      firstName = overwrite (firstName a) (set_firstName p),
      lastName = overwrite (lastName a) (set_lastName p),
      birthDate = overwrite (birthDate a) (set_birthDate p),
      deathDate = overwrite (deathDate a) (set_deathDate p)\<rparr>"

definition spread_genre :: "genre \<Rightarrow> partial_genre \<Rightarrow> genre" where
  "spread_genre g p =
     \<lparr>genre_id = overwrite (genre_id g) (set_genre_id p),
      name = overwrite (name g) (set_name p)\<rparr>"

definition spread_bookCopy :: "bookCopy \<Rightarrow> partial_bookCopy \<Rightarrow> bookCopy" where
  "spread_bookCopy c p =
     \<lparr>copy_id = overwrite (copy_id c) (set_copy_id p),
      bookId = overwrite (bookId c) (set_bookId p),
      imprint = overwrite (imprint c) (set_imprint p),
      status = overwrite (status c) (set_status p),
      dueBackDate = overwrite (dueBackDate c) (set_dueBackDate p)\<rparr>"

text \<open>
  The update operations return the new storage and the updated row; \<open>None\<close> is \<^verbatim>\<open>null\<close>.
\<close>

definition updateBook :: "store \<Rightarrow> string \<Rightarrow> partial_book \<Rightarrow> store \<times> book option" where
  "updateBook st i p =
     (case findIndex (\<lambda>b. book_id b = i) (books st) of
        None \<Rightarrow> (st, None)
      | Some k \<Rightarrow>
          (let bs = (books st)[k := spread_book (books st ! k) p]
           in (st\<lparr>books := bs\<rparr>, Some (bs ! k))))"

definition updateAuthor :: "store \<Rightarrow> string \<Rightarrow> partial_author \<Rightarrow> store \<times> author option" where
  "updateAuthor st i p =
     (case findIndex (\<lambda>a. author_id a = i) (authors st) of
        None \<Rightarrow> (st, None)
      | Some k \<Rightarrow>
          (let as = (authors st)[k := spread_author (authors st ! k) p]
           in (st\<lparr>authors := as\<rparr>, Some (as ! k))))"

definition updateGenre :: "store \<Rightarrow> string \<Rightarrow> partial_genre \<Rightarrow> store \<times> genre option" where
  "updateGenre st i p =
     (case findIndex (\<lambda>g. genre_id g = i) (genres st) of
        None \<Rightarrow> (st, None)
      | Some k \<Rightarrow>
          (let gs = (genres st)[k := spread_genre (genres st ! k) p]
           in (st\<lparr>genres := gs\<rparr>, Some (gs ! k))))"

definition updateBookCopy ::
  "store \<Rightarrow> string \<Rightarrow> partial_bookCopy \<Rightarrow> store \<times> bookCopy option" where
  "updateBookCopy st i p =
     (case findIndex (\<lambda>c. copy_id c = i) (bookCopies st) of
        None \<Rightarrow> (st, None)
      | Some k \<Rightarrow>
          (let cs = (bookCopies st)[k := spread_bookCopy (bookCopies st ! k) p]
           in (st\<lparr>bookCopies := cs\<rparr>, Some (cs ! k))))"

text \<open>
  The delete operations return the new storage and the boolean result. Deleting a book first
  replaces the array of copies by those whose \<^verbatim>\<open>bookId !== id\<close>, then splices the book out.
\<close>

definition deleteBook :: "store \<Rightarrow> string \<Rightarrow> store \<times> bool" where
  "deleteBook st i =
     (case findIndex (\<lambda>b. book_id b = i) (books st) of
        None \<Rightarrow> (st, False)
      | Some k \<Rightarrow>
          (st\<lparr>bookCopies := filter (\<lambda>c. bookId c \<noteq> JStr i) (bookCopies st),
              books := splice1 k (books st)\<rparr>, True))"

definition deleteAuthor :: "store \<Rightarrow> string \<Rightarrow> store \<times> bool" where
  "deleteAuthor st i =
     (case findIndex (\<lambda>a. author_id a = i) (authors st) of
        None \<Rightarrow> (st, False)
      | Some k \<Rightarrow> (st\<lparr>authors := splice1 k (authors st)\<rparr>, True))"

definition deleteGenre :: "store \<Rightarrow> string \<Rightarrow> store \<times> bool" where
  "deleteGenre st i =
     (case findIndex (\<lambda>g. genre_id g = i) (genres st) of
        None \<Rightarrow> (st, False)
      | Some k \<Rightarrow> (st\<lparr>genres := splice1 k (genres st)\<rparr>, True))"

definition deleteBookCopy :: "store \<Rightarrow> string \<Rightarrow> store \<times> bool" where
  "deleteBookCopy st i =
     (case findIndex (\<lambda>c. copy_id c = i) (bookCopies st) of
        None \<Rightarrow> (st, False)
      | Some k \<Rightarrow> (st\<lparr>bookCopies := splice1 k (bookCopies st)\<rparr>, True))"

section \<open>Sample data\<close>

definition initializeData :: "store \<Rightarrow> store" where
  "initializeData st =
     (let author1 = \<lparr>author_id = ''auth1'', firstName = JStr ''Isaac'', lastName = JStr ''Asimov'',
                      birthDate = JStr ''1920-01-02'', deathDate = JStr ''1992-04-06''\<rparr>;
          author2 = \<lparr>author_id = ''auth2'', firstName = JStr ''Ursula'',
                      lastName = JStr ''K. Le Guin'',
                      birthDate = JStr ''1929-10-21'', deathDate = JStr ''2018-01-22''\<rparr>;
          st1 = addAuthor st author1;
          st2 = addAuthor st1 author2;
          genre1 = \<lparr>genre_id = ''gen1'', name = JStr ''Science Fiction''\<rparr>;
          genre2 = \<lparr>genre_id = ''gen2'', name = JStr ''Fantasy''\<rparr>;
          st3 = addGenre st2 genre1;
          st4 = addGenre st3 genre2;
          book1 = \<lparr>book_id = ''book1'', title = JStr ''Foundation'',
                    authorIds = JArr [JStr ''auth1''], genreIds = JArr [JStr ''gen1''],
                    isbn = JStr ''978-0-553-29335-4'',
                    summary = JStr ''The first book in the Foundation series by Isaac Asimov.''\<rparr>;
          st5 = addBook st4 book1;
          copy1 = \<lparr>copy_id = ''copy1'', bookId = JStr ''book1'',
                    imprint = JStr ''First Edition 1951'', status = JStr ''available'',
                    dueBackDate = JUndefined\<rparr>
      in addBookCopy st5 copy1)"

section \<open>Controllers\<close>

text \<open>
  What a controller sends: \<open>OK\<close> is status 200 with the row, \<open>OKList\<close> status 200 with rows,
  \<open>Created\<close> status 201 with the row, \<open>NoContent\<close> status 204, \<open>BadRequest m\<close> status 400
  with \<^verbatim>\<open>{ error: 'Bad Request', message: m }\<close>, \<open>NotFound m\<close> status 404 with
  \<^verbatim>\<open>{ error: 'Not Found', message: m }\<close>. \<open>TypeError\<close> is a controller that throws a
  \<^verbatim>\<open>TypeError\<close> before it has sent anything. A create controller also takes the text of the
  random number that \<^verbatim>\<open>generateId\<close> draws.
\<close>

datatype 'a response =
    OK 'a
  | OKList "'a list"
  | Created 'a
  | NoContent
  | BadRequest string
  | NotFound string
  | TypeError

subsection \<open>Authors\<close>

definition getAllAuthors :: "store \<Rightarrow> author response" where
  "getAllAuthors st = OKList (authors st)"

definition getAuthorById :: "store \<Rightarrow> string \<Rightarrow> author response" where
  "getAuthorById st i =
     (case findAuthorById st (JStr i) of
        None \<Rightarrow> NotFound ''Author not found''
      | Some a \<Rightarrow> OK a)"

definition createAuthor :: "store \<Rightarrow> string \<Rightarrow> body \<Rightarrow> store \<times> author response" where
  "createAuthor st rnd body =
     (if \<not> truthy (body ''firstName'') \<or> \<not> truthy (body ''birthDate'')
      then (st, BadRequest ''firstName and birthDate are required'')
      else
        (let newAuthor = \<lparr>author_id = generateId rnd,
                           firstName = body ''firstName'',
                           lastName = body ''lastName'',
                           birthDate = body ''birthDate'',
                           deathDate = body ''deathDate''\<rparr>
         in (addAuthor st newAuthor, Created newAuthor)))"

definition updateAuthorById :: "store \<Rightarrow> string \<Rightarrow> body \<Rightarrow> store \<times> author response" where
  "updateAuthorById st i body =
     (if \<not> truthy (body ''firstName'') \<or> \<not> truthy (body ''birthDate'')
      then (st, BadRequest ''firstName and birthDate are required'')
      else
        (case updateAuthor st i
                \<lparr>set_author_id = None,
                 set_firstName = Some (body ''firstName''),
                 set_lastName = Some (body ''lastName''),
                 set_birthDate = Some (body ''birthDate''),
                 set_deathDate = Some (body ''deathDate'')\<rparr> of
           (st', None) \<Rightarrow> (st', NotFound ''Author not found'')
         | (st', Some updatedAuthor) \<Rightarrow> (st', OK updatedAuthor)))"

definition deleteAuthorById :: "store \<Rightarrow> string \<Rightarrow> store \<times> author response" where
  "deleteAuthorById st i =
     (case deleteAuthor st i of
        (st', success) \<Rightarrow>
          if \<not> success then (st', NotFound ''Author not found'') else (st', NoContent))"

subsection \<open>Genres\<close>

definition getAllGenres :: "store \<Rightarrow> genre response" where
  "getAllGenres st = OKList (genres st)"

definition getGenreById :: "store \<Rightarrow> string \<Rightarrow> genre response" where
  "getGenreById st i =
     (case findGenreById st (JStr i) of
        None \<Rightarrow> NotFound ''Genre not found''
      | Some g \<Rightarrow> OK g)"

definition createGenre :: "store \<Rightarrow> string \<Rightarrow> body \<Rightarrow> store \<times> genre response" where
  "createGenre st rnd body =
     (if \<not> truthy (body ''name'')
      then (st, BadRequest ''name is required'')
      else
        (let newGenre = \<lparr>genre_id = generateId rnd, name = body ''name''\<rparr>
         in (addGenre st newGenre, Created newGenre)))"

definition updateGenreById :: "store \<Rightarrow> string \<Rightarrow> body \<Rightarrow> store \<times> genre response" where
  "updateGenreById st i body =
     (if \<not> truthy (body ''name'')
      then (st, BadRequest ''name is required'')
      else
        (case updateGenre st i \<lparr>set_genre_id = None, set_name = Some (body ''name'')\<rparr> of
           (st', None) \<Rightarrow> (st', NotFound ''Genre not found'')
         | (st', Some updatedGenre) \<Rightarrow> (st', OK updatedGenre)))"

definition deleteGenreById :: "store \<Rightarrow> string \<Rightarrow> store \<times> genre response" where
  "deleteGenreById st i =
     (case deleteGenre st i of
        (st', success) \<Rightarrow>
          if \<not> success then (st', NotFound ''Genre not found'') else (st', NoContent))"

subsection \<open>Book copies\<close>

text \<open>
  \<^verbatim>\<open>===\<close> between two payload values: primitives are compared by value; an array or an
  object is only equal to itself, and two parsed values never share one.
\<close>

fun strict_eq :: "json \<Rightarrow> json \<Rightarrow> bool" where
  "strict_eq (JArr xs) j = False"
| "strict_eq (JObj kvs) j = False"
| "strict_eq j k = (j = k)"

definition validStatuses :: "string list" where
  "validStatuses = [''available'', ''unavailable'', ''can be checkout'', ''checked out'']"

text \<open>\<^verbatim>\<open>validStatuses.includes(status)\<close>.\<close>

definition includes_js :: "string list \<Rightarrow> json \<Rightarrow> bool" where
  "includes_js xs j = (j \<in> set (map JStr xs))"

text \<open>The list controller takes the query parameters \<^verbatim>\<open>bookId\<close> and \<^verbatim>\<open>status\<close>.\<close>

definition getAllBookCopies :: "store \<Rightarrow> json \<Rightarrow> json \<Rightarrow> bookCopy response" where
  "getAllBookCopies st qBookId qStatus =
     (let filteredCopies = bookCopies st;
          filteredCopies1 =
            (if truthy qBookId then filter (\<lambda>c. strict_eq (bookId c) qBookId) filteredCopies
             else filteredCopies);
          filteredCopies2 =
            (if truthy qStatus then filter (\<lambda>c. strict_eq (status c) qStatus) filteredCopies1
             else filteredCopies1)
      in OKList filteredCopies2)"

definition getBookCopyById :: "store \<Rightarrow> string \<Rightarrow> bookCopy response" where
  "getBookCopyById st i =
     (case findBookCopyById st (JStr i) of
        None \<Rightarrow> NotFound ''Book copy not found''
      | Some c \<Rightarrow> OK c)"

definition createBookCopy :: "store \<Rightarrow> string \<Rightarrow> body \<Rightarrow> store \<times> bookCopy response" where
  "createBookCopy st rnd body =
     (if \<not> truthy (body ''bookId'') \<or> \<not> truthy (body ''imprint'') \<or> \<not> truthy (body ''status'')
      then (st, BadRequest ''bookId, imprint, and status are required'')
      else if findBookById st (body ''bookId'') = None
      then (st, BadRequest ''Invalid book ID'')
      else if \<not> includes_js validStatuses (body ''status'')
      then (st, BadRequest (''Invalid status. Must be one of: ''
                              @ intercalate '', '' validStatuses))
      else
        (let newBookCopy = \<lparr>copy_id = generateId rnd,
                             bookId = body ''bookId'',
                             imprint = body ''imprint'',
                             status = body ''status'',
                             dueBackDate = body ''dueBackDate''\<rparr>
         in (addBookCopy st newBookCopy, Created newBookCopy)))"

definition updateBookCopyById :: "store \<Rightarrow> string \<Rightarrow> body \<Rightarrow> store \<times> bookCopy response" where
  "updateBookCopyById st i body =
     (if \<not> truthy (body ''bookId'') \<or> \<not> truthy (body ''imprint'') \<or> \<not> truthy (body ''status'')
      then (st, BadRequest ''bookId, imprint, and status are required'')
      else if findBookById st (body ''bookId'') = None
      then (st, BadRequest ''Invalid book ID'')
      else if \<not> includes_js validStatuses (body ''status'')
      then (st, BadRequest (''Invalid status. Must be one of: ''
                              @ intercalate '', '' validStatuses))
      else
        (case updateBookCopy st i
                \<lparr>set_copy_id = None,
                 set_bookId = Some (body ''bookId''),
                 set_imprint = Some (body ''imprint''),
                 set_status = Some (body ''status''),
                 set_dueBackDate = Some (body ''dueBackDate'')\<rparr> of
           (st', None) \<Rightarrow> (st', NotFound ''Book copy not found'')
         | (st', Some updatedBookCopy) \<Rightarrow> (st', OK updatedBookCopy)))"

definition deleteBookCopyById :: "store \<Rightarrow> string \<Rightarrow> store \<times> bookCopy response" where
  "deleteBookCopyById st i =
     (case deleteBookCopy st i of
        (st', success) \<Rightarrow>
          if \<not> success then (st', NotFound ''Book copy not found'') else (st', NoContent))"

subsection \<open>Books\<close>

definition getAllBooks :: "store \<Rightarrow> book response" where
  "getAllBooks st = OKList (books st)"


definition createBook :: "store \<Rightarrow> string \<Rightarrow> body \<Rightarrow> store \<times> book response" where
  "createBook st rnd body =
     (if \<not> truthy (body ''title'') \<or> \<not> truthy (body ''authorIds'')
         \<or> \<not> truthy (body ''genreIds'') \<or> \<not> truthy (body ''isbn'')
         \<or> \<not> truthy (body ''summary'')
      then (st, BadRequest ''title, authorIds, genreIds, isbn, and summary are required'')
      else if \<not> isArray (body ''authorIds'') \<or> length (elements (body ''authorIds'')) = 0
      then (st, BadRequest ''authorIds must be a non-empty array'')
      else if \<not> isArray (body ''genreIds'') \<or> length (elements (body ''genreIds'')) = 0
      then (st, BadRequest ''genreIds must be a non-empty array'')
      else
        (let invalidAuthorIds =
               filter (\<lambda>i. findAuthorById st i = None) (elements (body ''authorIds''))
         in if length invalidAuthorIds > 0
            then (case js_join '', '' invalidAuthorIds of
                    None \<Rightarrow> (st, TypeError)
                  | Some joined \<Rightarrow> (st, BadRequest (''Invalid author IDs: '' @ joined)))
            else
              (let invalidGenreIds =
                     filter (\<lambda>i. findGenreById st i = None) (elements (body ''genreIds''))
               in if length invalidGenreIds > 0
                  then (case js_join '', '' invalidGenreIds of
                          None \<Rightarrow> (st, TypeError)
                        | Some joined \<Rightarrow>
                            (st, BadRequest (''Invalid genre IDs: '' @ joined)))
                  else
                    (let newBook = \<lparr>book_id = generateId rnd,
                                     title = body ''title'',
                                     authorIds = body ''authorIds'',
                                     genreIds = body ''genreIds'',
                                     isbn = body ''isbn'',
                                     summary = body ''summary''\<rparr>
                     in (addBook st newBook, Created newBook)))))"

definition updateBookById :: "store \<Rightarrow> string \<Rightarrow> body \<Rightarrow> store \<times> book response" where
  "updateBookById st i body =
     (if \<not> truthy (body ''title'') \<or> \<not> truthy (body ''authorIds'')
         \<or> \<not> truthy (body ''genreIds'') \<or> \<not> truthy (body ''isbn'')
         \<or> \<not> truthy (body ''summary'')
      then (st, BadRequest ''title, authorIds, genreIds, isbn, and summary are required'')
      else if \<not> isArray (body ''authorIds'') \<or> length (elements (body ''authorIds'')) = 0
      then (st, BadRequest ''authorIds must be a non-empty array'')
      else if \<not> isArray (body ''genreIds'') \<or> length (elements (body ''genreIds'')) = 0
      then (st, BadRequest ''genreIds must be a non-empty array'')
      else
        (let invalidAuthorIds =
               filter (\<lambda>i. findAuthorById st i = None) (elements (body ''authorIds''))
         in if length invalidAuthorIds > 0
            then (case js_join '', '' invalidAuthorIds of
                    None \<Rightarrow> (st, TypeError)
                  | Some joined \<Rightarrow> (st, BadRequest (''Invalid author IDs: '' @ joined)))
            else
              (let invalidGenreIds =
                     filter (\<lambda>i. findGenreById st i = None) (elements (body ''genreIds''))
               in if length invalidGenreIds > 0
                  then (case js_join '', '' invalidGenreIds of
                          None \<Rightarrow> (st, TypeError)
                        | Some joined \<Rightarrow>
                            (st, BadRequest (''Invalid genre IDs: '' @ joined)))
                  else
                    (case updateBook st i
                            \<lparr>set_book_id = None,
                             set_title = Some (body ''title''),
                             set_authorIds = Some (body ''authorIds''),
                             set_genreIds = Some (body ''genreIds''),
                             set_isbn = Some (body ''isbn''),
                             set_summary = Some (body ''summary'')\<rparr> of
                       (st', None) \<Rightarrow> (st', NotFound ''Book not found'')
                     | (st', Some updatedBook) \<Rightarrow> (st', OK updatedBook)))))"

definition deleteBookById :: "store \<Rightarrow> string \<Rightarrow> store \<times> book response" where
  "deleteBookById st i =
     (case deleteBook st i of
        (st', success) \<Rightarrow>
          if \<not> success then (st', NotFound ''Book not found'') else (st', NoContent))"

section \<open>Sequences of controller calls\<close>

text \<open>
  The controllers that write to the storage, one constructor each, with their arguments: the
  text of the random number for a create, the path parameter \<^verbatim>\<open>id\<close> for an update or a
  delete, and the body. The read controllers leave the storage as it is.
\<close>

datatype operation =
    CreateAuthor string body
  | UpdateAuthorById string body
  | DeleteAuthorById string
  | CreateGenre string body
  | UpdateGenreById string body
  | DeleteGenreById string
  | CreateBook string body
  | UpdateBookById string body
  | DeleteBookById string
  | CreateBookCopy string body
  | UpdateBookCopyById string body
  | DeleteBookCopyById string

fun apply_op :: "store \<Rightarrow> operation \<Rightarrow> store" where
  "apply_op st (CreateAuthor rnd body) = fst (createAuthor st rnd body)"
| "apply_op st (UpdateAuthorById i body) = fst (updateAuthorById st i body)"
| "apply_op st (DeleteAuthorById i) = fst (deleteAuthorById st i)"
| "apply_op st (CreateGenre rnd body) = fst (createGenre st rnd body)"
| "apply_op st (UpdateGenreById i body) = fst (updateGenreById st i body)"
| "apply_op st (DeleteGenreById i) = fst (deleteGenreById st i)"
| "apply_op st (CreateBook rnd body) = fst (createBook st rnd body)"
| "apply_op st (UpdateBookById i body) = fst (updateBookById st i body)"
| "apply_op st (DeleteBookById i) = fst (deleteBookById st i)"
| "apply_op st (CreateBookCopy rnd body) = fst (createBookCopy st rnd body)"
| "apply_op st (UpdateBookCopyById i body) = fst (updateBookCopyById st i body)"
| "apply_op st (DeleteBookCopyById i) = fst (deleteBookCopyById st i)"

fun run :: "store \<Rightarrow> operation list \<Rightarrow> store" where
  "run st [] = st"
| "run st (x # xs) = run (apply_op st x) xs"

section \<open>Properties of a storage and of a payload\<close>

text \<open>No two rows of a table share an identifier.\<close>

definition unique_ids :: "store \<Rightarrow> bool" where
  "unique_ids st =
     (distinct (map book_id (books st)) \<and> distinct (map author_id (authors st))
      \<and> distinct (map genre_id (genres st)) \<and> distinct (map copy_id (bookCopies st)))"

text \<open>
  The identifier that a create would generate is not the identifier of a row of the table it
  appends to. \<^verbatim>\<open>generateId\<close> itself does not look at the tables.
\<close>

fun fresh :: "store \<Rightarrow> operation \<Rightarrow> bool" where
  "fresh st (CreateAuthor rnd body) = (generateId rnd \<notin> set (map author_id (authors st)))"
| "fresh st (CreateGenre rnd body) = (generateId rnd \<notin> set (map genre_id (genres st)))"
| "fresh st (CreateBook rnd body) = (generateId rnd \<notin> set (map book_id (books st)))"
| "fresh st (CreateBookCopy rnd body) = (generateId rnd \<notin> set (map copy_id (bookCopies st)))"
| "fresh st x = True"

fun fresh_run :: "store \<Rightarrow> operation list \<Rightarrow> bool" where
  "fresh_run st [] = True"
| "fresh_run st (x # xs) = (fresh st x \<and> fresh_run (apply_op st x) xs)"

text \<open>
  A payload passes the validation of a controller when none of the controller's guards
  answers with status 400: these are the negated guards, in the controllers' order.
\<close>

definition author_payload_valid :: "body \<Rightarrow> bool" where
  "author_payload_valid body = (truthy (body ''firstName'') \<and> truthy (body ''birthDate''))"

definition genre_payload_valid :: "body \<Rightarrow> bool" where
  "genre_payload_valid body = truthy (body ''name'')"

definition copy_payload_valid :: "store \<Rightarrow> body \<Rightarrow> bool" where
  "copy_payload_valid st body =
     (truthy (body ''bookId'') \<and> truthy (body ''imprint'') \<and> truthy (body ''status'')
      \<and> findBookById st (body ''bookId'') \<noteq> None
      \<and> includes_js validStatuses (body ''status''))"

definition book_payload_valid :: "store \<Rightarrow> body \<Rightarrow> bool" where
  "book_payload_valid st body =
     (truthy (body ''title'') \<and> truthy (body ''authorIds'') \<and> truthy (body ''genreIds'')
      \<and> truthy (body ''isbn'') \<and> truthy (body ''summary'')
      \<and> isArray (body ''authorIds'') \<and> elements (body ''authorIds'') \<noteq> []
      \<and> isArray (body ''genreIds'') \<and> elements (body ''genreIds'') \<noteq> []
      \<and> filter (\<lambda>i. findAuthorById st i = None) (elements (body ''authorIds'')) = []
      \<and> filter (\<lambda>i. findGenreById st i = None) (elements (body ''genreIds'')) = [])"

text \<open>The identifiers of the stored rows, table by table, in storage order.\<close>

definition ids :: "store \<Rightarrow> string list \<times> string list \<times> string list \<times> string list" where
  "ids st = (map book_id (books st), map author_id (authors st),
             map genre_id (genres st), map copy_id (bookCopies st))"

text \<open>Every row of the first storage is a row of the second.\<close>

definition rows_subset :: "store \<Rightarrow> store \<Rightarrow> bool" where
  "rows_subset st' st =
     (set (books st') \<subseteq> set (books st) \<and> set (authors st') \<subseteq> set (authors st)
      \<and> set (genres st') \<subseteq> set (genres st) \<and> set (bookCopies st') \<subseteq> set (bookCopies st))"

text \<open>Every table of the second storage starts with the table of the first.\<close>

definition rows_prefix :: "store \<Rightarrow> store \<Rightarrow> bool" where
  "rows_prefix st st' =
     (take (length (books st)) (books st') = books st
      \<and> take (length (authors st)) (authors st') = authors st
      \<and> take (length (genres st)) (genres st') = genres st
      \<and> take (length (bookCopies st)) (bookCopies st') = bookCopies st)"

text \<open>
  The second table has as many rows as the first, and the same row at every position other
  than the given one (if any).
\<close>

definition same_except :: "nat option \<Rightarrow> 'a list \<Rightarrow> 'a list \<Rightarrow> bool" where
  "same_except ko xs ys =
     (length ys = length xs \<and> (\<forall>k < length xs. ko \<noteq> Some k \<longrightarrow> ys ! k = xs ! k))"

section \<open>Facts about the array operations\<close>

lemma findIndex_Some:
  "findIndex p xs = Some k \<Longrightarrow> k < length xs \<and> p (xs ! k) \<and> (\<forall>j<k. \<not> p (xs ! j))"
proof (induction xs arbitrary: k)
  case Nil
  then show ?case by simp
next
  case (Cons x xs)
  show ?case
  proof (cases "p x")
    case True
    with Cons.prems show ?thesis by simp
  next
    case False
    with Cons.prems obtain k' where k': "findIndex p xs = Some k'" "k = Suc k'"
      by auto
    from Cons.IH[OF k'(1)] False k'(2) show ?thesis
      by (auto simp: nth_Cons split: nat.splits)
  qed
qed


lemma find_findIndex:
  "find p xs = Some x \<Longrightarrow> \<exists>k. findIndex p xs = Some k \<and> xs ! k = x"
  by (induction xs) (auto split: if_splits)


lemma length_splice1: "k < length xs \<Longrightarrow> Suc (length (splice1 k xs)) = length xs"
  by (simp add: splice1_def)

lemma set_splice1: "set (splice1 k xs) \<subseteq> set xs"
  unfolding splice1_def by (auto dest: in_set_takeD in_set_dropD)

lemma distinct_take_drop_Suc:
  assumes "distinct ys"
  shows "distinct (take k ys @ drop (Suc k) ys)"
proof (cases "k < length ys")
  case True
  have "ys = take k ys @ ys ! k # drop (Suc k) ys"
    using True by (rule id_take_nth_drop)
  then have "distinct (take k ys @ ys ! k # drop (Suc k) ys)"
    using assms by simp
  then show ?thesis by auto
next
  case False
  then show ?thesis using assms by simp
qed

lemma distinct_splice1: "distinct (map f xs) \<Longrightarrow> distinct (map f (splice1 k xs))"
  using distinct_take_drop_Suc[of "map f xs" k]
  by (simp add: splice1_def take_map drop_map)

lemma splice1_removes:
  assumes "distinct (map f xs)" "k < length xs"
  shows "f (xs ! k) \<notin> f ` set (splice1 k xs)"
proof -
  let ?ys = "map f xs"
  have k: "k < length ?ys" using assms(2) by simp
  have "?ys = take k ?ys @ ?ys ! k # drop (Suc k) ?ys"
    using k by (rule id_take_nth_drop)
  then have "distinct (take k ?ys @ ?ys ! k # drop (Suc k) ?ys)"
    using assms(1) by simp
  then have "?ys ! k \<notin> set (take k ?ys @ drop (Suc k) ?ys)"
    by auto
  moreover have "map f (splice1 k xs) = take k ?ys @ drop (Suc k) ?ys"
    by (simp add: splice1_def take_map drop_map)
  ultimately have "?ys ! k \<notin> set (map f (splice1 k xs))" by simp
  then show ?thesis using assms(2) by simp
qed

section \<open>The sample data\<close>

lemma sample_store:
  "initializeData empty_store =
     \<lparr>books = [\<lparr>book_id = ''book1'', title = JStr ''Foundation'',
                 authorIds = JArr [JStr ''auth1''], genreIds = JArr [JStr ''gen1''],
                 isbn = JStr ''978-0-553-29335-4'',
                 summary = JStr ''The first book in the Foundation series by Isaac Asimov.''\<rparr>],
      authors = [\<lparr>author_id = ''auth1'', firstName = JStr ''Isaac'', lastName = JStr ''Asimov'',
                      birthDate = JStr ''1920-01-02'', deathDate = JStr ''1992-04-06''\<rparr>,
                 \<lparr>author_id = ''auth2'', firstName = JStr ''Ursula'',
                      lastName = JStr ''K. Le Guin'',
                      birthDate = JStr ''1929-10-21'', deathDate = JStr ''2018-01-22''\<rparr>],
      genres = [\<lparr>genre_id = ''gen1'', name = JStr ''Science Fiction''\<rparr>,
                \<lparr>genre_id = ''gen2'', name = JStr ''Fantasy''\<rparr>],
      bookCopies = [\<lparr>copy_id = ''copy1'', bookId = JStr ''book1'',
                    imprint = JStr ''First Edition 1951'', status = JStr ''available'',
                    dueBackDate = JUndefined\<rparr>]\<rparr>"
  by (simp add: initializeData_def empty_store_def addAuthor_def addGenre_def addBook_def
      addBookCopy_def)

section \<open>Deleting a book\<close>

text \<open>
  Claim C1. If a book with the given id exists, \<open>deleteBook\<close> reports success; the first
  book with that id (the one the lookup finds) is removed from the table of books; the table
  of copies becomes the copies whose \<open>bookId\<close> is not that id, so no copy that refers to the
  id remains, in the table and in any list the copies controller returns afterwards; authors
  and genres are untouched; and when ids are unique no book with that id remains. The
  operation is one function from the storage before to the storage after: what a later
  operation receives is \<open>fst (deleteBook st i)\<close>, in which both removals have taken place.
\<close>

theorem deleteBook_cascade:
  assumes "findBookById st (JStr i) = Some b"
  shows "snd (deleteBook st i)
         \<and> deleteBookById st i = (fst (deleteBook st i), NoContent)
         \<and> (\<exists>k. findIndex (\<lambda>r. book_id r = i) (books st) = Some k
                \<and> k < length (books st) \<and> books st ! k = b \<and> book_id b = i
                \<and> books (fst (deleteBook st i)) = take k (books st) @ drop (Suc k) (books st))
         \<and> Suc (length (books (fst (deleteBook st i)))) = length (books st)
         \<and> bookCopies (fst (deleteBook st i))
             = filter (\<lambda>c. bookId c \<noteq> JStr i) (bookCopies st)
         \<and> (\<forall>c \<in> set (bookCopies (fst (deleteBook st i))). bookId c \<noteq> JStr i)
         \<and> (\<forall>q s rows. getAllBookCopies (fst (deleteBook st i)) q s = OKList rows
                \<longrightarrow> (\<forall>c \<in> set rows. bookId c \<noteq> JStr i))
         \<and> authors (fst (deleteBook st i)) = authors st
         \<and> genres (fst (deleteBook st i)) = genres st
         \<and> (distinct (map book_id (books st))
              \<longrightarrow> findBookById (fst (deleteBook st i)) (JStr i) = None)"
proof -
  from assms obtain k where k: "findIndex (\<lambda>r. JStr (book_id r) = JStr i) (books st) = Some k"
    and bk: "books st ! k = b"
    unfolding findBookById_def by (auto dest: find_findIndex)
  then have k': "findIndex (\<lambda>r. book_id r = i) (books st) = Some k" by simp
  from findIndex_Some[OF k']
  have klen: "k < length (books st)" and bid: "book_id (books st ! k) = i"
    by auto
  have del: "deleteBook st i =
      (st\<lparr>bookCopies := filter (\<lambda>c. bookId c \<noteq> JStr i) (bookCopies st),
          books := splice1 k (books st)\<rparr>, True)"
    by (simp add: deleteBook_def k')
  have ok: "snd (deleteBook st i)" by (simp add: del)
  have byid: "deleteBookById st i = (fst (deleteBook st i), NoContent)"
    by (simp add: deleteBookById_def del)
  have bs: "books (fst (deleteBook st i)) = splice1 k (books st)"
    by (simp add: del)
  have first: "\<exists>k. findIndex (\<lambda>r. book_id r = i) (books st) = Some k
                \<and> k < length (books st) \<and> books st ! k = b \<and> book_id b = i
                \<and> books (fst (deleteBook st i)) = take k (books st) @ drop (Suc k) (books st)"
    using k' klen bk bid bs unfolding splice1_def by blast
  have len: "Suc (length (books (fst (deleteBook st i)))) = length (books st)"
    using klen by (simp add: bs length_splice1)
  have cs: "bookCopies (fst (deleteBook st i))
      = filter (\<lambda>c. bookId c \<noteq> JStr i) (bookCopies st)"
    by (simp add: del)
  have none: "\<forall>c \<in> set (bookCopies (fst (deleteBook st i))). bookId c \<noteq> JStr i"
    by (simp add: cs)
  have lst: "\<forall>q s rows. getAllBookCopies (fst (deleteBook st i)) q s = OKList rows
                  \<longrightarrow> (\<forall>c \<in> set rows. bookId c \<noteq> JStr i)"
    by (auto simp: getAllBookCopies_def Let_def cs split: if_splits)
  have au: "authors (fst (deleteBook st i)) = authors st" by (simp add: del)
  have ge: "genres (fst (deleteBook st i)) = genres st" by (simp add: del)
  have uniq: "distinct (map book_id (books st))
                \<longrightarrow> findBookById (fst (deleteBook st i)) (JStr i) = None"
  proof
    assume d: "distinct (map book_id (books st))"
    from splice1_removes[OF d klen] bid
    have "i \<notin> book_id ` set (splice1 k (books st))" by simp
    then show "findBookById (fst (deleteBook st i)) (JStr i) = None"
      by (auto simp: findBookById_def bs find_None_iff)
  qed
  from ok byid first len cs none lst au ge uniq show ?thesis
    by (intro conjI)
qed

theorem deleteBook_cascade_witness:
  "findBookById (initializeData empty_store) (JStr ''book1'') \<noteq> None
   \<and> snd (deleteBook (initializeData empty_store) ''book1'')
   \<and> snd (deleteBookById (initializeData empty_store) ''book1'') = NoContent
   \<and> findBookById (fst (deleteBook (initializeData empty_store) ''book1'')) (JStr ''book1'') = None
   \<and> bookCopies (fst (deleteBook (initializeData empty_store) ''book1'')) = []"
proof -
  let ?b = "\<lparr>book_id = ''book1'', title = JStr ''Foundation'',
                 authorIds = JArr [JStr ''auth1''], genreIds = JArr [JStr ''gen1''],
                 isbn = JStr ''978-0-553-29335-4'',
                 summary = JStr ''The first book in the Foundation series by Isaac Asimov.''\<rparr>"
  have h: "findBookById (initializeData empty_store) (JStr ''book1'') = Some ?b"
    by (simp add: sample_store findBookById_def)
  have d: "distinct (map book_id (books (initializeData empty_store)))"
    by (simp add: sample_store)
  note t = deleteBook_cascade[OF h]
  have 1: "findBookById (initializeData empty_store) (JStr ''book1'') \<noteq> None"
    using h by simp
  have 2: "snd (deleteBook (initializeData empty_store) ''book1'')"
    using t by (rule conjunct1)
  have 3: "snd (deleteBookById (initializeData empty_store) ''book1'') = NoContent"
    using t by simp
  have 4: "findBookById (fst (deleteBook (initializeData empty_store) ''book1''))
             (JStr ''book1'') = None"
    using t d by blast
  have "bookCopies (fst (deleteBook (initializeData empty_store) ''book1''))
      = filter (\<lambda>c. bookId c \<noteq> JStr ''book1'') (bookCopies (initializeData empty_store))"
    using t by blast
  then have 5: "bookCopies (fst (deleteBook (initializeData empty_store) ''book1'')) = []"
    by (simp add: sample_store)
  from 1 2 3 4 5 show ?thesis by (intro conjI)
qed

section \<open>Validation of a book payload\<close>

lemma those_map_Some: "those (map Some xs) = Some xs"
  by (induction xs) simp_all

lemma js_join_strings: "js_join sep (map JStr ss) = Some (intercalate sep ss)"
  by (simp add: js_join_def comp_def those_map_Some)

text \<open>
  The order of the checks. \<open>createBook\<close> and \<open>updateBookById\<close> check, in this order: that
  title, authorIds, genreIds, isbn and summary are all truthy; that authorIds is a non-empty
  array; that genreIds is a non-empty array; that every element of authorIds resolves to an
  author; that every element of genreIds resolves to a genre. The first check that fails
  decides what happens, whatever the later checks would say, and the storage is left as it
  was. An existence check that fails joins, with a comma and a space, all the elements that
  do not resolve: where the join gives a text, the answer is status 400 with that text in
  the message; where the join throws, the controller throws. When every check passes, create
  appends and returns the new row, and update answers neither with status 400 nor by
  throwing.
\<close>

lemma book_validation_order:
  "(let present = (truthy (body ''title'') \<and> truthy (body ''authorIds'')
                   \<and> truthy (body ''genreIds'') \<and> truthy (body ''isbn'')
                   \<and> truthy (body ''summary''));
        authorsShape = (isArray (body ''authorIds'') \<and> elements (body ''authorIds'') \<noteq> []);
        genresShape = (isArray (body ''genreIds'') \<and> elements (body ''genreIds'') \<noteq> []);
        invalidAuthorIds = filter (\<lambda>j. findAuthorById st j = None) (elements (body ''authorIds''));
        invalidGenreIds = filter (\<lambda>j. findGenreById st j = None) (elements (body ''genreIds''))
    in (\<not> present \<longrightarrow>
          createBook st rnd body
            = (st, BadRequest ''title, authorIds, genreIds, isbn, and summary are required'')
          \<and> updateBookById st i body
            = (st, BadRequest ''title, authorIds, genreIds, isbn, and summary are required''))
     \<and> (present \<and> \<not> authorsShape \<longrightarrow>
          createBook st rnd body = (st, BadRequest ''authorIds must be a non-empty array'')
          \<and> updateBookById st i body = (st, BadRequest ''authorIds must be a non-empty array''))
     \<and> (present \<and> authorsShape \<and> \<not> genresShape \<longrightarrow>
          createBook st rnd body = (st, BadRequest ''genreIds must be a non-empty array'')
          \<and> updateBookById st i body = (st, BadRequest ''genreIds must be a non-empty array''))
     \<and> (present \<and> authorsShape \<and> genresShape \<and> invalidAuthorIds \<noteq> [] \<longrightarrow>
          createBook st rnd body
            = (st, case js_join '', '' invalidAuthorIds of
                     None \<Rightarrow> TypeError
                   | Some joined \<Rightarrow> BadRequest (''Invalid author IDs: '' @ joined))
          \<and> updateBookById st i body
            = (st, case js_join '', '' invalidAuthorIds of
                     None \<Rightarrow> TypeError
                   | Some joined \<Rightarrow> BadRequest (''Invalid author IDs: '' @ joined)))
     \<and> (present \<and> authorsShape \<and> genresShape \<and> invalidAuthorIds = []
          \<and> invalidGenreIds \<noteq> [] \<longrightarrow>
          createBook st rnd body
            = (st, case js_join '', '' invalidGenreIds of
                     None \<Rightarrow> TypeError
                   | Some joined \<Rightarrow> BadRequest (''Invalid genre IDs: '' @ joined))
          \<and> updateBookById st i body
            = (st, case js_join '', '' invalidGenreIds of
                     None \<Rightarrow> TypeError
                   | Some joined \<Rightarrow> BadRequest (''Invalid genre IDs: '' @ joined)))
     \<and> (present \<and> authorsShape \<and> genresShape \<and> invalidAuthorIds = []
          \<and> invalidGenreIds = [] \<longrightarrow>
          createBook st rnd body
            = (addBook st \<lparr>book_id = generateId rnd, title = body ''title'',
                           authorIds = body ''authorIds'', genreIds = body ''genreIds'',
                           isbn = body ''isbn'', summary = body ''summary''\<rparr>,
               Created \<lparr>book_id = generateId rnd, title = body ''title'',
                           authorIds = body ''authorIds'', genreIds = body ''genreIds'',
                           isbn = body ''isbn'', summary = body ''summary''\<rparr>)
          \<and> (\<forall>m. snd (updateBookById st i body) \<noteq> BadRequest m)
          \<and> snd (updateBookById st i body) \<noteq> TypeError)
     \<and> set invalidAuthorIds
          = {j \<in> set (elements (body ''authorIds'')). findAuthorById st j = None}
     \<and> set invalidGenreIds
          = {j \<in> set (elements (body ''genreIds'')). findGenreById st j = None}
     \<and> (\<forall>ss. js_join '', '' (map JStr ss) = Some (intercalate '', '' ss)))"
proof -
  let ?present = "truthy (body ''title'') \<and> truthy (body ''authorIds'')
                   \<and> truthy (body ''genreIds'') \<and> truthy (body ''isbn'')
                   \<and> truthy (body ''summary'')"
  let ?A = "isArray (body ''authorIds'') \<and> elements (body ''authorIds'') \<noteq> []"
  let ?G = "isArray (body ''genreIds'') \<and> elements (body ''genreIds'') \<noteq> []"
  let ?ia = "filter (\<lambda>j. findAuthorById st j = None) (elements (body ''authorIds''))"
  let ?ig = "filter (\<lambda>j. findGenreById st j = None) (elements (body ''genreIds''))"
  have 1: "\<not> ?present \<longrightarrow>
     createBook st rnd body
            = (st, BadRequest ''title, authorIds, genreIds, isbn, and summary are required'')
          \<and> updateBookById st i body
            = (st, BadRequest ''title, authorIds, genreIds, isbn, and summary are required'')"
    by (auto simp: createBook_def updateBookById_def)
  have 2: "?present \<and> \<not> ?A \<longrightarrow>
          createBook st rnd body = (st, BadRequest ''authorIds must be a non-empty array'')
          \<and> updateBookById st i body = (st, BadRequest ''authorIds must be a non-empty array'')"
    by (auto simp: createBook_def updateBookById_def)
  have 3: "?present \<and> ?A \<and> \<not> ?G \<longrightarrow>
          createBook st rnd body = (st, BadRequest ''genreIds must be a non-empty array'')
          \<and> updateBookById st i body = (st, BadRequest ''genreIds must be a non-empty array'')"
    by (auto simp: createBook_def updateBookById_def)
  have 4: "?present \<and> ?A \<and> ?G \<and> ?ia \<noteq> [] \<longrightarrow>
          createBook st rnd body
            = (st, case js_join '', '' ?ia of
                     None \<Rightarrow> TypeError
                   | Some joined \<Rightarrow> BadRequest (''Invalid author IDs: '' @ joined))
          \<and> updateBookById st i body
            = (st, case js_join '', '' ?ia of
                     None \<Rightarrow> TypeError
                   | Some joined \<Rightarrow> BadRequest (''Invalid author IDs: '' @ joined))"
    by (simp add: createBook_def updateBookById_def Let_def split: option.splits)
  have 5: "?present \<and> ?A \<and> ?G \<and> ?ia = [] \<and> ?ig \<noteq> [] \<longrightarrow>
          createBook st rnd body
            = (st, case js_join '', '' ?ig of
                     None \<Rightarrow> TypeError
                   | Some joined \<Rightarrow> BadRequest (''Invalid genre IDs: '' @ joined))
          \<and> updateBookById st i body
            = (st, case js_join '', '' ?ig of
                     None \<Rightarrow> TypeError
                   | Some joined \<Rightarrow> BadRequest (''Invalid genre IDs: '' @ joined))"
    by (simp add: createBook_def updateBookById_def Let_def split: option.splits)
  have 6: "?present \<and> ?A \<and> ?G \<and> ?ia = [] \<and> ?ig = [] \<longrightarrow>
          createBook st rnd body
            = (addBook st \<lparr>book_id = generateId rnd, title = body ''title'',
                           authorIds = body ''authorIds'', genreIds = body ''genreIds'',
                           isbn = body ''isbn'', summary = body ''summary''\<rparr>,
               Created \<lparr>book_id = generateId rnd, title = body ''title'',
                           authorIds = body ''authorIds'', genreIds = body ''genreIds'',
                           isbn = body ''isbn'', summary = body ''summary''\<rparr>)
          \<and> (\<forall>m. snd (updateBookById st i body) \<noteq> BadRequest m)
          \<and> snd (updateBookById st i body) \<noteq> TypeError"
    by (simp add: createBook_def updateBookById_def Let_def split: prod.splits option.splits)
  have 7: "set ?ia = {j \<in> set (elements (body ''authorIds'')). findAuthorById st j = None}"
    by simp
  have 8: "set ?ig = {j \<in> set (elements (body ''genreIds'')). findGenreById st j = None}"
    by simp
  have 9: "\<forall>ss. js_join '', '' (map JStr ss) = Some (intercalate '', '' ss)"
    by (simp add: js_join_strings)
  from 1 2 3 4 5 6 7 8 9 show ?thesis
    unfolding Let_def by (intro conjI)
qed

text \<open>
  The order of the checks at two payloads: an empty genreIds is reported before the author
  that does not resolve, and the message names both authors that do not resolve.
\<close>

lemma book_validation_order_example:
  "createBook (initializeData empty_store) ''0.i''
     (body_of [(''title'', JStr ''X''), (''authorIds'', JArr [JStr ''bad'']),
               (''genreIds'', JArr []), (''isbn'', JStr ''1''), (''summary'', JStr ''s'')])
     = (initializeData empty_store, BadRequest ''genreIds must be a non-empty array'')
   \<and> updateBookById (initializeData empty_store) ''book1''
     (body_of [(''title'', JStr ''X''),
               (''authorIds'', JArr [JStr ''bad1'', JStr ''auth1'', JStr ''bad2'']),
               (''genreIds'', JArr [JStr ''nope'']), (''isbn'', JStr ''1''),
               (''summary'', JStr ''s'')])
     = (initializeData empty_store, BadRequest ''Invalid author IDs: bad1, bad2'')"
proof -
  let ?S = "initializeData empty_store"
  let ?b1 = "body_of [(''title'', JStr ''X''), (''authorIds'', JArr [JStr ''bad'']),
               (''genreIds'', JArr []), (''isbn'', JStr ''1''), (''summary'', JStr ''s'')]"
  let ?b2 = "body_of [(''title'', JStr ''X''),
               (''authorIds'', JArr [JStr ''bad1'', JStr ''auth1'', JStr ''bad2'']),
               (''genreIds'', JArr [JStr ''nope'']), (''isbn'', JStr ''1''),
               (''summary'', JStr ''s'')]"
  note t1 = book_validation_order[where st = ?S and body = ?b1 and rnd = "''0.i''"
      and i = "''book1''", unfolded Let_def]
  note t2 = book_validation_order[where st = ?S and body = ?b2 and rnd = "''0.i''"
      and i = "''book1''", unfolded Let_def]
  have 1: "createBook ?S ''0.i'' ?b1 = (?S, BadRequest ''genreIds must be a non-empty array'')"
    by (rule t1[THEN conjunct2, THEN conjunct2, THEN conjunct1, THEN mp, THEN conjunct1])
       (simp add: body_of_def)
  have "updateBookById ?S ''book1'' ?b2
      = (?S, case js_join '', ''
               (filter (\<lambda>j. findAuthorById ?S j = None) (elements (?b2 ''authorIds''))) of
               None \<Rightarrow> TypeError
             | Some joined \<Rightarrow> BadRequest (''Invalid author IDs: '' @ joined))"
    by (rule t2[THEN conjunct2, THEN conjunct2, THEN conjunct2, THEN conjunct1, THEN mp,
          THEN conjunct2])
       (simp add: body_of_def sample_store findAuthorById_def)
  then have 2: "updateBookById ?S ''book1'' ?b2
      = (?S, BadRequest ''Invalid author IDs: bad1, bad2'')"
    by (simp add: body_of_def sample_store findAuthorById_def js_join_def)
  from 1 2 show ?thesis by (rule conjI)
qed

text \<open>
  Claim C2 says that, for every request, the first failing check determines the reported
  error and that the message of an existence check lists the ids that do not resolve. The
  controllers build that message with \<^verbatim>\<open>join\<close>, which converts each id to a string. For the
  payload whose authorIds is \<^verbatim>\<open>[{"toString": 1}]\<close>, the element does not resolve and cannot be
  converted: \<open>createBook\<close> and \<open>updateBookById\<close> throw a \<^verbatim>\<open>TypeError\<close> and report no
  validation error, where their documentation says that a failed validation is answered
  with status 400 and an error message.
\<close>

theorem book_validation_unprintable_id_throws:
  "createBook (initializeData empty_store) ''0.i''
     (body_of [(''title'', JStr ''X''),
               (''authorIds'', JArr [JObj [(''toString'', JNum ''1'')]]),
               (''genreIds'', JArr [JStr ''gen1'']), (''isbn'', JStr ''1''),
               (''summary'', JStr ''s'')])
     = (initializeData empty_store, TypeError)
   \<and> updateBookById (initializeData empty_store) ''book1''
     (body_of [(''title'', JStr ''X''),
               (''authorIds'', JArr [JObj [(''toString'', JNum ''1'')]]),
               (''genreIds'', JArr [JStr ''gen1'']), (''isbn'', JStr ''1''),
               (''summary'', JStr ''s'')])
     = (initializeData empty_store, TypeError)"
  by (simp add: createBook_def updateBookById_def body_of_def sample_store findAuthorById_def
      findGenreById_def js_join_def Let_def)

theorem book_validation_unprintable_id_throws_witness:
  "snd (createBook (initializeData empty_store) ''0.i''
     (body_of [(''title'', JStr ''X''),
               (''authorIds'', JArr [JObj [(''toString'', JNum ''1'')]]),
               (''genreIds'', JArr [JStr ''gen1'']), (''isbn'', JStr ''1''),
               (''summary'', JStr ''s'')])) = TypeError
   \<and> fst (createBook (initializeData empty_store) ''0.i''
     (body_of [(''title'', JStr ''X''),
               (''authorIds'', JArr [JObj [(''toString'', JNum ''1'')]]),
               (''genreIds'', JArr [JStr ''gen1'']), (''isbn'', JStr ''1''),
               (''summary'', JStr ''s'')])) = initializeData empty_store"
  using book_validation_unprintable_id_throws [THEN conjunct1] by simp

section \<open>Validation of a copy payload\<close>

lemma includes_validStatuses:
  "includes_js validStatuses j \<longleftrightarrow>
     j \<in> {JStr ''available'', JStr ''unavailable'', JStr ''can be checkout'', JStr ''checked out''}"
  by (auto simp: includes_js_def validStatuses_def)

lemma validStatuses_message:
  "''Invalid status. Must be one of: '' @ intercalate '', '' validStatuses
     = ''Invalid status. Must be one of: available, unavailable, can be checkout, checked out''"
  by (simp add: validStatuses_def)

text \<open>
  Claim C3. \<open>createBookCopy\<close> and \<open>updateBookCopyById\<close> check, in this order: that bookId,
  imprint and status are all truthy; that bookId resolves to a book; that status is one of
  available, unavailable, can be checkout, checked out. The first check that fails fixes the
  response and the storage is left as it was; the status message lists the four values. A
  create whose bookId does not resolve to a book answers with status 400, whatever the other
  fields are, and the table of copies is as before.
\<close>

theorem copy_validation_order:
  "(let present = (truthy (body ''bookId'') \<and> truthy (body ''imprint'')
                   \<and> truthy (body ''status''));
        bookFound = (findBookById st (body ''bookId'') \<noteq> None);
        statusValid = (body ''status'' \<in> {JStr ''available'', JStr ''unavailable'',
                                             JStr ''can be checkout'', JStr ''checked out''})
    in (\<not> present \<longrightarrow>
          createBookCopy st rnd body
            = (st, BadRequest ''bookId, imprint, and status are required'')
          \<and> updateBookCopyById st i body
            = (st, BadRequest ''bookId, imprint, and status are required''))
     \<and> (present \<and> \<not> bookFound \<longrightarrow>
          createBookCopy st rnd body = (st, BadRequest ''Invalid book ID'')
          \<and> updateBookCopyById st i body = (st, BadRequest ''Invalid book ID''))
     \<and> (present \<and> bookFound \<and> \<not> statusValid \<longrightarrow>
          createBookCopy st rnd body
            = (st, BadRequest ''Invalid status. Must be one of: available, unavailable, can be checkout, checked out'')
          \<and> updateBookCopyById st i body
            = (st, BadRequest ''Invalid status. Must be one of: available, unavailable, can be checkout, checked out''))
     \<and> (present \<and> bookFound \<and> statusValid \<longrightarrow>
          createBookCopy st rnd body
            = (addBookCopy st \<lparr>copy_id = generateId rnd, bookId = body ''bookId'',
                               imprint = body ''imprint'', status = body ''status'',
                               dueBackDate = body ''dueBackDate''\<rparr>,
               Created \<lparr>copy_id = generateId rnd, bookId = body ''bookId'',
                        imprint = body ''imprint'', status = body ''status'',
                        dueBackDate = body ''dueBackDate''\<rparr>)
          \<and> (\<forall>m. snd (updateBookCopyById st i body) \<noteq> BadRequest m))
     \<and> (\<not> bookFound \<longrightarrow>
          (\<exists>m. createBookCopy st rnd body = (st, BadRequest m))
          \<and> bookCopies (fst (createBookCopy st rnd body)) = bookCopies st))"
proof -
  let ?present = "truthy (body ''bookId'') \<and> truthy (body ''imprint'')
                   \<and> truthy (body ''status'')"
  let ?found = "findBookById st (body ''bookId'') \<noteq> None"
  let ?valid = "body ''status'' \<in> {JStr ''available'', JStr ''unavailable'',
                                             JStr ''can be checkout'', JStr ''checked out''}"
  have v: "includes_js validStatuses (body ''status'') = ?valid"
    by (rule includes_validStatuses)
  have 1: "\<not> ?present \<longrightarrow>
          createBookCopy st rnd body
            = (st, BadRequest ''bookId, imprint, and status are required'')
          \<and> updateBookCopyById st i body
            = (st, BadRequest ''bookId, imprint, and status are required'')"
    by (auto simp: createBookCopy_def updateBookCopyById_def)
  have 2: "?present \<and> \<not> ?found \<longrightarrow>
          createBookCopy st rnd body = (st, BadRequest ''Invalid book ID'')
          \<and> updateBookCopyById st i body = (st, BadRequest ''Invalid book ID'')"
    by (simp add: createBookCopy_def updateBookCopyById_def)
  have 3: "?present \<and> ?found \<and> \<not> ?valid \<longrightarrow>
          createBookCopy st rnd body
            = (st, BadRequest ''Invalid status. Must be one of: available, unavailable, can be checkout, checked out'')
          \<and> updateBookCopyById st i body
            = (st, BadRequest ''Invalid status. Must be one of: available, unavailable, can be checkout, checked out'')"
    unfolding createBookCopy_def updateBookCopyById_def v validStatuses_message
    by simp
  have 4: "?present \<and> ?found \<and> ?valid \<longrightarrow>
          createBookCopy st rnd body
            = (addBookCopy st \<lparr>copy_id = generateId rnd, bookId = body ''bookId'',
                               imprint = body ''imprint'', status = body ''status'',
                               dueBackDate = body ''dueBackDate''\<rparr>,
               Created \<lparr>copy_id = generateId rnd, bookId = body ''bookId'',
                        imprint = body ''imprint'', status = body ''status'',
                        dueBackDate = body ''dueBackDate''\<rparr>)
          \<and> (\<forall>m. snd (updateBookCopyById st i body) \<noteq> BadRequest m)"
    unfolding createBookCopy_def updateBookCopyById_def v validStatuses_message
    by (simp add: Let_def split: prod.splits option.splits)
  have 5: "\<not> ?found \<longrightarrow>
          (\<exists>m. createBookCopy st rnd body = (st, BadRequest m))
          \<and> bookCopies (fst (createBookCopy st rnd body)) = bookCopies st"
    by (simp add: createBookCopy_def)
  from 1 2 3 4 5 show ?thesis
    unfolding Let_def by (intro conjI)
qed

theorem copy_validation_order_witness:
  "createBookCopy (initializeData empty_store) ''0.i''
     (body_of [(''bookId'', JStr ''nonexistent''), (''imprint'', JStr ''i''),
               (''status'', JStr ''available'')])
     = (initializeData empty_store, BadRequest ''Invalid book ID'')
   \<and> updateBookCopyById (initializeData empty_store) ''copy1''
     (body_of [(''bookId'', JStr ''book1''), (''imprint'', JStr ''i''),
               (''status'', JStr ''lost'')])
     = (initializeData empty_store,
        BadRequest ''Invalid status. Must be one of: available, unavailable, can be checkout, checked out'')"
proof -
  let ?S = "initializeData empty_store"
  let ?b1 = "body_of [(''bookId'', JStr ''nonexistent''), (''imprint'', JStr ''i''),
               (''status'', JStr ''available'')]"
  let ?b2 = "body_of [(''bookId'', JStr ''book1''), (''imprint'', JStr ''i''),
               (''status'', JStr ''lost'')]"
  note t1 = copy_validation_order[where st = ?S and body = ?b1 and rnd = "''0.i''"
      and i = "''copy1''", unfolded Let_def]
  note t2 = copy_validation_order[where st = ?S and body = ?b2 and rnd = "''0.i''"
      and i = "''copy1''", unfolded Let_def]
  have 1: "createBookCopy ?S ''0.i'' ?b1 = (?S, BadRequest ''Invalid book ID'')"
    by (rule t1[THEN conjunct2, THEN conjunct1, THEN mp, THEN conjunct1])
       (simp add: body_of_def sample_store findBookById_def)
  have 2: "updateBookCopyById ?S ''copy1'' ?b2
     = (?S, BadRequest ''Invalid status. Must be one of: available, unavailable, can be checkout, checked out'')"
    by (rule t2[THEN conjunct2, THEN conjunct2, THEN conjunct1, THEN mp, THEN conjunct2])
       (simp add: body_of_def sample_store findBookById_def)
  from 1 2 show ?thesis by (rule conjI)
qed

section \<open>Facts about the update operations\<close>

lemma find_by_id_index:
  assumes "find (\<lambda>r. JStr (f r) = JStr i) xs = Some x"
  shows "\<exists>k. findIndex (\<lambda>r. f r = i) xs = Some k \<and> k < length xs \<and> xs ! k = x \<and> f x = i"
proof -
  from find_findIndex[OF assms] obtain k
    where k: "findIndex (\<lambda>r. JStr (f r) = JStr i) xs = Some k" and x: "xs ! k = x"
    by blast
  from k have k': "findIndex (\<lambda>r. f r = i) xs = Some k" by simp
  from findIndex_Some[OF k'] x k' show ?thesis by auto
qed

lemma updateAuthor_found:
  assumes "findIndex (\<lambda>r. author_id r = i) (authors st) = Some k"
  shows "updateAuthor st i p =
           (st\<lparr>authors := (authors st)[k := spread_author (authors st ! k) p]\<rparr>,
            Some (spread_author (authors st ! k) p))"
  using findIndex_Some[OF assms] by (simp add: updateAuthor_def assms Let_def)

lemma updateGenre_found:
  assumes "findIndex (\<lambda>r. genre_id r = i) (genres st) = Some k"
  shows "updateGenre st i p =
           (st\<lparr>genres := (genres st)[k := spread_genre (genres st ! k) p]\<rparr>,
            Some (spread_genre (genres st ! k) p))"
  using findIndex_Some[OF assms] by (simp add: updateGenre_def assms Let_def)

lemma updateBook_found:
  assumes "findIndex (\<lambda>r. book_id r = i) (books st) = Some k"
  shows "updateBook st i p =
           (st\<lparr>books := (books st)[k := spread_book (books st ! k) p]\<rparr>,
            Some (spread_book (books st ! k) p))"
  using findIndex_Some[OF assms] by (simp add: updateBook_def assms Let_def)

lemma updateBookCopy_found:
  assumes "findIndex (\<lambda>r. copy_id r = i) (bookCopies st) = Some k"
  shows "updateBookCopy st i p =
           (st\<lparr>bookCopies := (bookCopies st)[k := spread_bookCopy (bookCopies st ! k) p]\<rparr>,
            Some (spread_bookCopy (bookCopies st ! k) p))"
  using findIndex_Some[OF assms] by (simp add: updateBookCopy_def assms Let_def)

lemma updateAuthorById_found:
  assumes v: "author_payload_valid body" and f: "findAuthorById st (JStr i) = Some a"
  shows "\<exists>k. findIndex (\<lambda>r. author_id r = i) (authors st) = Some k \<and> authors st ! k = a
           \<and> updateAuthorById st i body =
               (st\<lparr>authors := (authors st)
                      [k := \<lparr>author_id = author_id a, firstName = body ''firstName'',
                             lastName = body ''lastName'', birthDate = body ''birthDate'',
                             deathDate = body ''deathDate''\<rparr>]\<rparr>,
                OK \<lparr>author_id = author_id a, firstName = body ''firstName'',
                    lastName = body ''lastName'', birthDate = body ''birthDate'',
                    deathDate = body ''deathDate''\<rparr>)"
proof -
  from f obtain k where k: "findIndex (\<lambda>r. author_id r = i) (authors st) = Some k"
    and a: "authors st ! k = a"
    unfolding findAuthorById_def by (blast dest: find_by_id_index)
  have "updateAuthorById st i body =
               (st\<lparr>authors := (authors st)
                      [k := \<lparr>author_id = author_id a, firstName = body ''firstName'',
                             lastName = body ''lastName'', birthDate = body ''birthDate'',
                             deathDate = body ''deathDate''\<rparr>]\<rparr>,
                OK \<lparr>author_id = author_id a, firstName = body ''firstName'',
                    lastName = body ''lastName'', birthDate = body ''birthDate'',
                    deathDate = body ''deathDate''\<rparr>)"
    using v by (simp add: updateAuthorById_def author_payload_valid_def updateAuthor_found[OF k]
        a spread_author_def overwrite_def)
  with k a show ?thesis by blast
qed

lemma updateGenreById_found:
  assumes v: "genre_payload_valid body" and f: "findGenreById st (JStr i) = Some g"
  shows "\<exists>k. findIndex (\<lambda>r. genre_id r = i) (genres st) = Some k \<and> genres st ! k = g
           \<and> updateGenreById st i body =
               (st\<lparr>genres := (genres st)
                      [k := \<lparr>genre_id = genre_id g, name = body ''name''\<rparr>]\<rparr>,
                OK \<lparr>genre_id = genre_id g, name = body ''name''\<rparr>)"
proof -
  from f obtain k where k: "findIndex (\<lambda>r. genre_id r = i) (genres st) = Some k"
    and a: "genres st ! k = g"
    unfolding findGenreById_def by (blast dest: find_by_id_index)
  have "updateGenreById st i body =
               (st\<lparr>genres := (genres st)
                      [k := \<lparr>genre_id = genre_id g, name = body ''name''\<rparr>]\<rparr>,
                OK \<lparr>genre_id = genre_id g, name = body ''name''\<rparr>)"
    using v by (simp add: updateGenreById_def genre_payload_valid_def updateGenre_found[OF k]
        a spread_genre_def overwrite_def)
  with k a show ?thesis by blast
qed

lemma updateBookById_found:
  assumes v: "book_payload_valid st body" and f: "findBookById st (JStr i) = Some b"
  shows "\<exists>k. findIndex (\<lambda>r. book_id r = i) (books st) = Some k \<and> books st ! k = b
           \<and> updateBookById st i body =
               (st\<lparr>books := (books st)
                      [k := \<lparr>book_id = book_id b, title = body ''title'',
                             authorIds = body ''authorIds'', genreIds = body ''genreIds'',
                             isbn = body ''isbn'', summary = body ''summary''\<rparr>]\<rparr>,
                OK \<lparr>book_id = book_id b, title = body ''title'',
                    authorIds = body ''authorIds'', genreIds = body ''genreIds'',
                    isbn = body ''isbn'', summary = body ''summary''\<rparr>)"
proof -
  from f obtain k where k: "findIndex (\<lambda>r. book_id r = i) (books st) = Some k"
    and a: "books st ! k = b"
    unfolding findBookById_def by (blast dest: find_by_id_index)
  have "updateBookById st i body =
               (st\<lparr>books := (books st)
                      [k := \<lparr>book_id = book_id b, title = body ''title'',
                             authorIds = body ''authorIds'', genreIds = body ''genreIds'',
                             isbn = body ''isbn'', summary = body ''summary''\<rparr>]\<rparr>,
                OK \<lparr>book_id = book_id b, title = body ''title'',
                    authorIds = body ''authorIds'', genreIds = body ''genreIds'',
                    isbn = body ''isbn'', summary = body ''summary''\<rparr>)"
    using v by (simp add: updateBookById_def book_payload_valid_def updateBook_found[OF k]
        a spread_book_def overwrite_def)
  with k a show ?thesis by blast
qed

lemma updateBookCopyById_found:
  assumes v: "copy_payload_valid st body" and f: "findBookCopyById st (JStr i) = Some c"
  shows "\<exists>k. findIndex (\<lambda>r. copy_id r = i) (bookCopies st) = Some k \<and> bookCopies st ! k = c
           \<and> updateBookCopyById st i body =
               (st\<lparr>bookCopies := (bookCopies st)
                      [k := \<lparr>copy_id = copy_id c, bookId = body ''bookId'',
                             imprint = body ''imprint'', status = body ''status'',
                             dueBackDate = body ''dueBackDate''\<rparr>]\<rparr>,
                OK \<lparr>copy_id = copy_id c, bookId = body ''bookId'',
                    imprint = body ''imprint'', status = body ''status'',
                    dueBackDate = body ''dueBackDate''\<rparr>)"
proof -
  from f obtain k where k: "findIndex (\<lambda>r. copy_id r = i) (bookCopies st) = Some k"
    and a: "bookCopies st ! k = c"
    unfolding findBookCopyById_def by (blast dest: find_by_id_index)
  have "updateBookCopyById st i body =
               (st\<lparr>bookCopies := (bookCopies st)
                      [k := \<lparr>copy_id = copy_id c, bookId = body ''bookId'',
                             imprint = body ''imprint'', status = body ''status'',
                             dueBackDate = body ''dueBackDate''\<rparr>]\<rparr>,
                OK \<lparr>copy_id = copy_id c, bookId = body ''bookId'',
                    imprint = body ''imprint'', status = body ''status'',
                    dueBackDate = body ''dueBackDate''\<rparr>)"
    using v by (simp add: updateBookCopyById_def copy_payload_valid_def
        updateBookCopy_found[OF k] a spread_bookCopy_def overwrite_def)
  with k a show ?thesis by blast
qed

section \<open>What an update replaces\<close>

text \<open>
  Claim C4 says that an update keeps every field that is absent from the payload, the
  optional ones included. The controllers forward every field they read, so an optional
  field that the payload lacks is forwarded as a property holding \<^verbatim>\<open>undefined\<close>, and the
  spread writes it over the stored value: updating the sample author \<^verbatim>\<open>auth1\<close> with only
  firstName and birthDate clears the stored lastName and deathDate.
\<close>

theorem update_absent_optional_field_counterexample:
  "body_of [(''firstName'', JStr ''Isaac''), (''birthDate'', JStr ''1920-01-02'')] ''lastName''
     = JUndefined
   \<and> findAuthorById (initializeData empty_store) (JStr ''auth1'')
     = Some \<lparr>author_id = ''auth1'', firstName = JStr ''Isaac'', lastName = JStr ''Asimov'',
             birthDate = JStr ''1920-01-02'', deathDate = JStr ''1992-04-06''\<rparr>
   \<and> snd (updateAuthorById (initializeData empty_store) ''auth1''
            (body_of [(''firstName'', JStr ''Isaac''), (''birthDate'', JStr ''1920-01-02'')]))
     = OK \<lparr>author_id = ''auth1'', firstName = JStr ''Isaac'', lastName = JUndefined,
           birthDate = JStr ''1920-01-02'', deathDate = JUndefined\<rparr>
   \<and> findAuthorById
        (fst (updateAuthorById (initializeData empty_store) ''auth1''
            (body_of [(''firstName'', JStr ''Isaac''), (''birthDate'', JStr ''1920-01-02'')])))
        (JStr ''auth1'')
     = Some \<lparr>author_id = ''auth1'', firstName = JStr ''Isaac'', lastName = JUndefined,
             birthDate = JStr ''1920-01-02'', deathDate = JUndefined\<rparr>"
  by (simp add: sample_store body_of_def updateAuthorById_def updateAuthor_def Let_def
      findAuthorById_def spread_author_def overwrite_def)

text \<open>
  Claim C4, as amended. For each kind, when the payload passes validation and the id
  resolves to a row, the update controller replaces the first row with that id by the row
  that has the same id and, in every other field, the payload's value (\<open>JUndefined\<close> for an
  optional field the payload lacks), and returns that row with status 200. The storage
  operation replaces the first row with the id by the spread of that row and the partial
  object, in which every field of every kind, the id included, keeps its stored value
  exactly when the partial object has no such property, and takes the property's value
  otherwise.
\<close>

theorem update_replaces_forwarded_fields:
  "(author_payload_valid body \<and> findAuthorById st (JStr i) = Some a \<longrightarrow>
      (\<exists>k. findIndex (\<lambda>r. author_id r = i) (authors st) = Some k \<and> authors st ! k = a
           \<and> updateAuthorById st i body =
               (st\<lparr>authors := (authors st)
                      [k := \<lparr>author_id = author_id a, firstName = body ''firstName'',
                             lastName = body ''lastName'', birthDate = body ''birthDate'',
                             deathDate = body ''deathDate''\<rparr>]\<rparr>,
                OK \<lparr>author_id = author_id a, firstName = body ''firstName'',
                    lastName = body ''lastName'', birthDate = body ''birthDate'',
                    deathDate = body ''deathDate''\<rparr>)))
   \<and> (genre_payload_valid body \<and> findGenreById st (JStr i) = Some g \<longrightarrow>
      (\<exists>k. findIndex (\<lambda>r. genre_id r = i) (genres st) = Some k \<and> genres st ! k = g
           \<and> updateGenreById st i body =
               (st\<lparr>genres := (genres st)
                      [k := \<lparr>genre_id = genre_id g, name = body ''name''\<rparr>]\<rparr>,
                OK \<lparr>genre_id = genre_id g, name = body ''name''\<rparr>)))
   \<and> (book_payload_valid st body \<and> findBookById st (JStr i) = Some b \<longrightarrow>
      (\<exists>k. findIndex (\<lambda>r. book_id r = i) (books st) = Some k \<and> books st ! k = b
           \<and> updateBookById st i body =
               (st\<lparr>books := (books st)
                      [k := \<lparr>book_id = book_id b, title = body ''title'',
                             authorIds = body ''authorIds'', genreIds = body ''genreIds'',
                             isbn = body ''isbn'', summary = body ''summary''\<rparr>]\<rparr>,
                OK \<lparr>book_id = book_id b, title = body ''title'',
                    authorIds = body ''authorIds'', genreIds = body ''genreIds'',
                    isbn = body ''isbn'', summary = body ''summary''\<rparr>)))
   \<and> (copy_payload_valid st body \<and> findBookCopyById st (JStr i) = Some c \<longrightarrow>
      (\<exists>k. findIndex (\<lambda>r. copy_id r = i) (bookCopies st) = Some k \<and> bookCopies st ! k = c
           \<and> updateBookCopyById st i body =
               (st\<lparr>bookCopies := (bookCopies st)
                      [k := \<lparr>copy_id = copy_id c, bookId = body ''bookId'',
                             imprint = body ''imprint'', status = body ''status'',
                             dueBackDate = body ''dueBackDate''\<rparr>]\<rparr>,
                OK \<lparr>copy_id = copy_id c, bookId = body ''bookId'',
                    imprint = body ''imprint'', status = body ''status'',
                    dueBackDate = body ''dueBackDate''\<rparr>)))
   \<and> (set_author_id p = None \<longrightarrow> author_id (spread_author a p) = author_id a)
   \<and> (set_lastName p = None \<longrightarrow> lastName (spread_author a p) = lastName a)
   \<and> (set_deathDate p = None \<longrightarrow> deathDate (spread_author a p) = deathDate a)
   \<and> (set_lastName p = Some v \<longrightarrow> lastName (spread_author a p) = v)
   \<and> (set_deathDate p = Some v \<longrightarrow> deathDate (spread_author a p) = v)
   \<and> spread_author a pa
       = \<lparr>author_id = (case set_author_id pa of None \<Rightarrow> author_id a | Some w \<Rightarrow> w),
          firstName = (case set_firstName pa of None \<Rightarrow> firstName a | Some w \<Rightarrow> w),
          lastName = (case set_lastName pa of None \<Rightarrow> lastName a | Some w \<Rightarrow> w),
          birthDate = (case set_birthDate pa of None \<Rightarrow> birthDate a | Some w \<Rightarrow> w),
          deathDate = (case set_deathDate pa of None \<Rightarrow> deathDate a | Some w \<Rightarrow> w)\<rparr>
   \<and> spread_genre g pg
       = \<lparr>genre_id = (case set_genre_id pg of None \<Rightarrow> genre_id g | Some w \<Rightarrow> w),
          name = (case set_name pg of None \<Rightarrow> name g | Some w \<Rightarrow> w)\<rparr>
   \<and> spread_book b pb
       = \<lparr>book_id = (case set_book_id pb of None \<Rightarrow> book_id b | Some w \<Rightarrow> w),
          title = (case set_title pb of None \<Rightarrow> title b | Some w \<Rightarrow> w),
          authorIds = (case set_authorIds pb of None \<Rightarrow> authorIds b | Some w \<Rightarrow> w),
          genreIds = (case set_genreIds pb of None \<Rightarrow> genreIds b | Some w \<Rightarrow> w),
          isbn = (case set_isbn pb of None \<Rightarrow> isbn b | Some w \<Rightarrow> w),
          summary = (case set_summary pb of None \<Rightarrow> summary b | Some w \<Rightarrow> w)\<rparr>
   \<and> spread_bookCopy c pc
       = \<lparr>copy_id = (case set_copy_id pc of None \<Rightarrow> copy_id c | Some w \<Rightarrow> w),
          bookId = (case set_bookId pc of None \<Rightarrow> bookId c | Some w \<Rightarrow> w),
          imprint = (case set_imprint pc of None \<Rightarrow> imprint c | Some w \<Rightarrow> w),
          status = (case set_status pc of None \<Rightarrow> status c | Some w \<Rightarrow> w),
          dueBackDate = (case set_dueBackDate pc of None \<Rightarrow> dueBackDate c | Some w \<Rightarrow> w)\<rparr>
   \<and> (findIndex (\<lambda>r. author_id r = i) (authors st) = Some n \<longrightarrow>
        updateAuthor st i pa
          = (st\<lparr>authors := (authors st)[n := spread_author (authors st ! n) pa]\<rparr>,
             Some (spread_author (authors st ! n) pa)))
   \<and> (findIndex (\<lambda>r. genre_id r = i) (genres st) = Some n \<longrightarrow>
        updateGenre st i pg
          = (st\<lparr>genres := (genres st)[n := spread_genre (genres st ! n) pg]\<rparr>,
             Some (spread_genre (genres st ! n) pg)))
   \<and> (findIndex (\<lambda>r. book_id r = i) (books st) = Some n \<longrightarrow>
        updateBook st i pb
          = (st\<lparr>books := (books st)[n := spread_book (books st ! n) pb]\<rparr>,
             Some (spread_book (books st ! n) pb)))
   \<and> (findIndex (\<lambda>r. copy_id r = i) (bookCopies st) = Some n \<longrightarrow>
        updateBookCopy st i pc
          = (st\<lparr>bookCopies := (bookCopies st)[n := spread_bookCopy (bookCopies st ! n) pc]\<rparr>,
             Some (spread_bookCopy (bookCopies st ! n) pc)))"
proof (intro conjI impI)
  assume "author_payload_valid body \<and> findAuthorById st (JStr i) = Some a"
  then show "\<exists>k. findIndex (\<lambda>r. author_id r = i) (authors st) = Some k \<and> authors st ! k = a
           \<and> updateAuthorById st i body =
               (st\<lparr>authors := (authors st)
                      [k := \<lparr>author_id = author_id a, firstName = body ''firstName'',
                             lastName = body ''lastName'', birthDate = body ''birthDate'',
                             deathDate = body ''deathDate''\<rparr>]\<rparr>,
                OK \<lparr>author_id = author_id a, firstName = body ''firstName'',
                    lastName = body ''lastName'', birthDate = body ''birthDate'',
                    deathDate = body ''deathDate''\<rparr>)"
    using updateAuthorById_found by blast
next
  assume "genre_payload_valid body \<and> findGenreById st (JStr i) = Some g"
  then show "\<exists>k. findIndex (\<lambda>r. genre_id r = i) (genres st) = Some k \<and> genres st ! k = g
           \<and> updateGenreById st i body =
               (st\<lparr>genres := (genres st)
                      [k := \<lparr>genre_id = genre_id g, name = body ''name''\<rparr>]\<rparr>,
                OK \<lparr>genre_id = genre_id g, name = body ''name''\<rparr>)"
    using updateGenreById_found by blast
next
  assume "book_payload_valid st body \<and> findBookById st (JStr i) = Some b"
  then show "\<exists>k. findIndex (\<lambda>r. book_id r = i) (books st) = Some k \<and> books st ! k = b
           \<and> updateBookById st i body =
               (st\<lparr>books := (books st)
                      [k := \<lparr>book_id = book_id b, title = body ''title'',
                             authorIds = body ''authorIds'', genreIds = body ''genreIds'',
                             isbn = body ''isbn'', summary = body ''summary''\<rparr>]\<rparr>,
                OK \<lparr>book_id = book_id b, title = body ''title'',
                    authorIds = body ''authorIds'', genreIds = body ''genreIds'',
                    isbn = body ''isbn'', summary = body ''summary''\<rparr>)"
    using updateBookById_found by blast
next
  assume "copy_payload_valid st body \<and> findBookCopyById st (JStr i) = Some c"
  then show "\<exists>k. findIndex (\<lambda>r. copy_id r = i) (bookCopies st) = Some k \<and> bookCopies st ! k = c
           \<and> updateBookCopyById st i body =
               (st\<lparr>bookCopies := (bookCopies st)
                      [k := \<lparr>copy_id = copy_id c, bookId = body ''bookId'',
                             imprint = body ''imprint'', status = body ''status'',
                             dueBackDate = body ''dueBackDate''\<rparr>]\<rparr>,
                OK \<lparr>copy_id = copy_id c, bookId = body ''bookId'',
                    imprint = body ''imprint'', status = body ''status'',
                    dueBackDate = body ''dueBackDate''\<rparr>)"
    using updateBookCopyById_found by blast
qed (simp_all add: spread_author_def spread_genre_def spread_book_def spread_bookCopy_def
    overwrite_def updateAuthor_found updateGenre_found updateBook_found updateBookCopy_found)

theorem update_replaces_forwarded_fields_witness:
  "author_payload_valid (body_of [(''firstName'', JStr ''I.''), (''lastName'', JStr ''A.''),
        (''birthDate'', JStr ''1920'')])
   \<and> snd (updateAuthorById (initializeData empty_store) ''auth1''
        (body_of [(''firstName'', JStr ''I.''), (''lastName'', JStr ''A.''),
                  (''birthDate'', JStr ''1920'')]))
     = OK \<lparr>author_id = ''auth1'', firstName = JStr ''I.'', lastName = JStr ''A.'',
           birthDate = JStr ''1920'', deathDate = JUndefined\<rparr>"
proof -
  let ?S = "initializeData empty_store"
  let ?b = "body_of [(''firstName'', JStr ''I.''), (''lastName'', JStr ''A.''),
        (''birthDate'', JStr ''1920'')]"
  let ?a = "\<lparr>author_id = ''auth1'', firstName = JStr ''Isaac'', lastName = JStr ''Asimov'',
             birthDate = JStr ''1920-01-02'', deathDate = JStr ''1992-04-06''\<rparr>"
  have v: "author_payload_valid ?b"
    by (simp add: author_payload_valid_def body_of_def)
  have f: "findAuthorById ?S (JStr ''auth1'') = Some ?a"
    by (simp add: sample_store findAuthorById_def)
  from v f have h: "author_payload_valid ?b \<and> findAuthorById ?S (JStr ''auth1'') = Some ?a"
    by (rule conjI)
  note t = update_replaces_forwarded_fields[where st = ?S and body = ?b and i = "''auth1''"
      and a = ?a, THEN conjunct1, THEN mp, OF h]
  then obtain k where "updateAuthorById ?S ''auth1'' ?b =
               (?S\<lparr>authors := (authors ?S)
                      [k := \<lparr>author_id = author_id ?a, firstName = ?b ''firstName'',
                             lastName = ?b ''lastName'', birthDate = ?b ''birthDate'',
                             deathDate = ?b ''deathDate''\<rparr>]\<rparr>,
                OK \<lparr>author_id = author_id ?a, firstName = ?b ''firstName'',
                    lastName = ?b ''lastName'', birthDate = ?b ''birthDate'',
                    deathDate = ?b ''deathDate''\<rparr>)"
    by blast
  then have "snd (updateAuthorById ?S ''auth1'' ?b)
     = OK \<lparr>author_id = ''auth1'', firstName = JStr ''I.'', lastName = JStr ''A.'',
           birthDate = JStr ''1920'', deathDate = JUndefined\<rparr>"
    by (simp add: body_of_def)
  with v show ?thesis by (rule conjI)
qed

section \<open>Updating an id that does not resolve\<close>








section \<open>Creating a book and reading it back\<close>






section \<open>Facts about the delete operations\<close>















section \<open>Deleting twice\<close>




section \<open>Facts about identifiers\<close>

lemma map_update_same: "f y = f (xs ! k) \<Longrightarrow> map f (xs[k := y]) = map f xs"
  by (induction xs arbitrary: k) (auto split: nat.splits)

lemma updateAuthorById_ids: "ids (fst (updateAuthorById st i body)) = ids st"
  by (auto simp: updateAuthorById_def updateAuthor_def ids_def Let_def spread_author_def
      overwrite_def map_update_same split: option.splits)

lemma updateGenreById_ids: "ids (fst (updateGenreById st i body)) = ids st"
  by (auto simp: updateGenreById_def updateGenre_def ids_def Let_def spread_genre_def
      overwrite_def map_update_same split: option.splits)

lemma updateBookCopyById_ids: "ids (fst (updateBookCopyById st i body)) = ids st"
  by (auto simp: updateBookCopyById_def updateBookCopy_def ids_def Let_def spread_bookCopy_def
      overwrite_def map_update_same split: option.splits)

lemma updateBookById_ids: "ids (fst (updateBookById st i body)) = ids st"
  by (auto simp: updateBookById_def updateBook_def ids_def Let_def spread_book_def
      overwrite_def map_update_same split: option.splits)

lemma unique_ids_ids: "ids st' = ids st \<Longrightarrow> unique_ids st' = unique_ids st"
  by (simp add: ids_def unique_ids_def)

lemma deleteAuthorById_rows: "rows_subset (fst (deleteAuthorById st i)) st"
  using set_splice1[of _ "authors st"]
  by (auto simp: deleteAuthorById_def deleteAuthor_def rows_subset_def split: option.splits)

lemma deleteGenreById_rows: "rows_subset (fst (deleteGenreById st i)) st"
  using set_splice1[of _ "genres st"]
  by (auto simp: deleteGenreById_def deleteGenre_def rows_subset_def split: option.splits)

lemma deleteBookCopyById_rows: "rows_subset (fst (deleteBookCopyById st i)) st"
  using set_splice1[of _ "bookCopies st"]
  by (auto simp: deleteBookCopyById_def deleteBookCopy_def rows_subset_def split: option.splits)

lemma deleteBookById_rows: "rows_subset (fst (deleteBookById st i)) st"
  using set_splice1[of _ "books st"]
  by (auto simp: deleteBookById_def deleteBook_def rows_subset_def split: option.splits)

lemma deleteAuthorById_unique: "unique_ids st \<Longrightarrow> unique_ids (fst (deleteAuthorById st i))"
  by (auto simp: deleteAuthorById_def deleteAuthor_def unique_ids_def distinct_splice1
      split: option.splits)

lemma deleteGenreById_unique: "unique_ids st \<Longrightarrow> unique_ids (fst (deleteGenreById st i))"
  by (auto simp: deleteGenreById_def deleteGenre_def unique_ids_def distinct_splice1
      split: option.splits)

lemma deleteBookCopyById_unique:
  "unique_ids st \<Longrightarrow> unique_ids (fst (deleteBookCopyById st i))"
  by (auto simp: deleteBookCopyById_def deleteBookCopy_def unique_ids_def distinct_splice1
      split: option.splits)

lemma deleteBookById_unique: "unique_ids st \<Longrightarrow> unique_ids (fst (deleteBookById st i))"
  by (auto simp: deleteBookById_def deleteBook_def unique_ids_def distinct_splice1
      distinct_map_filter split: option.splits)

lemma createAuthor_prefix: "rows_prefix st (fst (createAuthor st rnd body))"
  by (simp add: createAuthor_def addAuthor_def rows_prefix_def Let_def)

lemma createGenre_prefix: "rows_prefix st (fst (createGenre st rnd body))"
  by (simp add: createGenre_def addGenre_def rows_prefix_def Let_def)

lemma createBookCopy_prefix: "rows_prefix st (fst (createBookCopy st rnd body))"
  by (simp add: createBookCopy_def addBookCopy_def rows_prefix_def Let_def)

lemma createBook_prefix: "rows_prefix st (fst (createBook st rnd body))"
  by (simp add: createBook_def addBook_def rows_prefix_def Let_def split: option.splits)

lemma createAuthor_unique:
  "unique_ids st \<Longrightarrow> generateId rnd \<notin> set (map author_id (authors st))
     \<Longrightarrow> unique_ids (fst (createAuthor st rnd body))"
  by (simp add: createAuthor_def addAuthor_def unique_ids_def Let_def)

lemma createGenre_unique:
  "unique_ids st \<Longrightarrow> generateId rnd \<notin> set (map genre_id (genres st))
     \<Longrightarrow> unique_ids (fst (createGenre st rnd body))"
  by (simp add: createGenre_def addGenre_def unique_ids_def Let_def)

lemma createBookCopy_unique:
  "unique_ids st \<Longrightarrow> generateId rnd \<notin> set (map copy_id (bookCopies st))
     \<Longrightarrow> unique_ids (fst (createBookCopy st rnd body))"
  by (simp add: createBookCopy_def addBookCopy_def unique_ids_def Let_def)

lemma createBook_unique:
  "unique_ids st \<Longrightarrow> generateId rnd \<notin> set (map book_id (books st))
     \<Longrightarrow> unique_ids (fst (createBook st rnd body))"
  by (simp add: createBook_def addBook_def unique_ids_def Let_def split: option.splits)

lemma apply_op_unique:
  assumes "unique_ids st" and "fresh st x"
  shows "unique_ids (apply_op st x)"
proof (cases x)
  case (CreateAuthor rnd body)
  with assms show ?thesis by (simp add: createAuthor_unique)
next
  case (UpdateAuthorById i body)
  with assms show ?thesis by (simp add: unique_ids_ids[OF updateAuthorById_ids])
next
  case (DeleteAuthorById i)
  with assms show ?thesis by (simp add: deleteAuthorById_unique)
next
  case (CreateGenre rnd body)
  with assms show ?thesis by (simp add: createGenre_unique)
next
  case (UpdateGenreById i body)
  with assms show ?thesis by (simp add: unique_ids_ids[OF updateGenreById_ids])
next
  case (DeleteGenreById i)
  with assms show ?thesis by (simp add: deleteGenreById_unique)
next
  case (CreateBook rnd body)
  with assms show ?thesis by (simp add: createBook_unique)
next
  case (UpdateBookById i body)
  with assms show ?thesis by (simp add: unique_ids_ids[OF updateBookById_ids])
next
  case (DeleteBookById i)
  with assms show ?thesis by (simp add: deleteBookById_unique)
next
  case (CreateBookCopy rnd body)
  with assms show ?thesis by (simp add: createBookCopy_unique)
next
  case (UpdateBookCopyById i body)
  with assms show ?thesis by (simp add: unique_ids_ids[OF updateBookCopyById_ids])
next
  case (DeleteBookCopyById i)
  with assms show ?thesis by (simp add: deleteBookCopyById_unique)
qed

lemma run_unique:
  "unique_ids st \<Longrightarrow> fresh_run st xs \<Longrightarrow> unique_ids (run st xs)"
proof (induction xs arbitrary: st)
  case Nil
  then show ?case by simp
next
  case (Cons x xs)
  from Cons.prems have "unique_ids (apply_op st x)" and "fresh_run (apply_op st x) xs"
    by (simp_all add: apply_op_unique)
  then show ?case by (simp add: Cons.IH)
qed

lemma sample_unique: "unique_ids (initializeData empty_store)"
  by (simp add: sample_store unique_ids_def)

section \<open>Uniqueness of identifiers\<close>

text \<open>
  Claim C8 says that identifiers are unique within their kind in every storage the
  controllers can reach, and the documentation of \<^verbatim>\<open>generateId\<close> says that it returns a new
  unique id. \<^verbatim>\<open>generateId\<close> takes its identifier from a random number without looking at the
  table, and the add operations append what they are given: from the sample data, whose
  identifiers are unique, two creates that draw the same number (one half, printed
  \<^verbatim>\<open>0.i\<close>) reach a table of genres that holds the id \<^verbatim>\<open>i\<close> twice.
\<close>

theorem unique_ids_broken_by_equal_draws:
  "unique_ids (initializeData empty_store)
   \<and> \<not> unique_ids
       (run (initializeData empty_store)
          [CreateGenre ''0.i'' (body_of [(''name'', JStr ''Horror'')]),
           CreateGenre ''0.i'' (body_of [(''name'', JStr ''Poetry'')])])"
proof -
  have r: "run (initializeData empty_store)
        [CreateGenre ''0.i'' (body_of [(''name'', JStr ''Horror'')]),
         CreateGenre ''0.i'' (body_of [(''name'', JStr ''Poetry'')])]
      = (initializeData empty_store)
          \<lparr>genres := genres (initializeData empty_store)
             @ [\<lparr>genre_id = ''i'', name = JStr ''Horror''\<rparr>,
                \<lparr>genre_id = ''i'', name = JStr ''Poetry''\<rparr>]\<rparr>"
    by (simp add: createGenre_def body_of_def generateId_def addGenre_def Let_def)
  have "\<not> unique_ids
       (run (initializeData empty_store)
          [CreateGenre ''0.i'' (body_of [(''name'', JStr ''Horror'')]),
           CreateGenre ''0.i'' (body_of [(''name'', JStr ''Poetry'')])])"
    unfolding r by (simp add: unique_ids_def)
  with sample_unique show ?thesis by (rule conjI)
qed

text \<open>
  What the controllers do keep. The sample data has unique identifiers, and every sequence
  of controller calls in which each create happens to draw an identifier that its table
  does not hold yet keeps identifiers unique within each table. No call changes the
  identifier of a stored row: an update leaves the identifiers of all four tables as they
  are, position by position; after a delete every row is a row from before; after a create
  every table starts with the table from before.
\<close>

lemma unique_ids_preserved:
  "unique_ids (initializeData empty_store)
   \<and> (unique_ids st \<and> fresh_run st xs \<longrightarrow> unique_ids (run st xs))
   \<and> ids (apply_op st (UpdateAuthorById i body)) = ids st
   \<and> ids (apply_op st (UpdateGenreById i body)) = ids st
   \<and> ids (apply_op st (UpdateBookById i body)) = ids st
   \<and> ids (apply_op st (UpdateBookCopyById i body)) = ids st
   \<and> rows_subset (apply_op st (DeleteAuthorById i)) st
   \<and> rows_subset (apply_op st (DeleteGenreById i)) st
   \<and> rows_subset (apply_op st (DeleteBookById i)) st
   \<and> rows_subset (apply_op st (DeleteBookCopyById i)) st
   \<and> rows_prefix st (apply_op st (CreateAuthor rnd body))
   \<and> rows_prefix st (apply_op st (CreateGenre rnd body))
   \<and> rows_prefix st (apply_op st (CreateBook rnd body))
   \<and> rows_prefix st (apply_op st (CreateBookCopy rnd body))"
proof (intro conjI)
  show "unique_ids (initializeData empty_store)" by (rule sample_unique)
  show "unique_ids st \<and> fresh_run st xs \<longrightarrow> unique_ids (run st xs)"
    using run_unique by blast
qed (simp_all add: updateAuthorById_ids updateGenreById_ids updateBookById_ids
    updateBookCopyById_ids deleteAuthorById_rows deleteGenreById_rows deleteBookById_rows
    deleteBookCopyById_rows createAuthor_prefix createGenre_prefix createBook_prefix
    createBookCopy_prefix)

lemma unique_ids_preserved_example:
  "fresh_run (initializeData empty_store)
     [CreateGenre ''0.i'' (body_of [(''name'', JStr ''Horror'')]),
      CreateGenre ''0.j'' (body_of [(''name'', JStr ''Poetry'')]),
      UpdateGenreById ''i'' (body_of [(''name'', JStr ''Gothic'')]),
      DeleteGenreById ''gen1'']
   \<and> unique_ids
       (run (initializeData empty_store)
          [CreateGenre ''0.i'' (body_of [(''name'', JStr ''Horror'')]),
           CreateGenre ''0.j'' (body_of [(''name'', JStr ''Poetry'')]),
           UpdateGenreById ''i'' (body_of [(''name'', JStr ''Gothic'')]),
           DeleteGenreById ''gen1''])
   \<and> genres
       (run (initializeData empty_store)
          [CreateGenre ''0.i'' (body_of [(''name'', JStr ''Horror'')]),
           CreateGenre ''0.j'' (body_of [(''name'', JStr ''Poetry'')]),
           UpdateGenreById ''i'' (body_of [(''name'', JStr ''Gothic'')]),
           DeleteGenreById ''gen1''])
     = [\<lparr>genre_id = ''gen2'', name = JStr ''Fantasy''\<rparr>,
        \<lparr>genre_id = ''i'', name = JStr ''Gothic''\<rparr>,
        \<lparr>genre_id = ''j'', name = JStr ''Poetry''\<rparr>]"
proof -
  let ?S = "initializeData empty_store"
  let ?xs = "[CreateGenre ''0.i'' (body_of [(''name'', JStr ''Horror'')]),
      CreateGenre ''0.j'' (body_of [(''name'', JStr ''Poetry'')]),
      UpdateGenreById ''i'' (body_of [(''name'', JStr ''Gothic'')]),
      DeleteGenreById ''gen1'']"
  have f: "fresh_run ?S ?xs"
    by (simp add: createGenre_def body_of_def generateId_def addGenre_def Let_def sample_store)
  have u: "unique_ids ?S"
    by (rule unique_ids_preserved[THEN conjunct1])
  from u f have h: "unique_ids ?S \<and> fresh_run ?S ?xs" by (rule conjI)
  have 1: "unique_ids (run ?S ?xs)"
    by (rule unique_ids_preserved[THEN conjunct2, THEN conjunct1, THEN mp, OF h])
  have 2: "genres (run ?S ?xs)
     = [\<lparr>genre_id = ''gen2'', name = JStr ''Fantasy''\<rparr>,
        \<lparr>genre_id = ''i'', name = JStr ''Gothic''\<rparr>,
        \<lparr>genre_id = ''j'', name = JStr ''Poetry''\<rparr>]"
    by (simp add: createGenre_def body_of_def generateId_def addGenre_def Let_def sample_store
        updateGenreById_def updateGenre_def spread_genre_def overwrite_def
        deleteGenreById_def deleteGenre_def splice1_def)
  from f 1 2 show ?thesis by (intro conjI)
qed

section \<open>Required fields that are present but falsy\<close>

lemma falsy_values:
  "\<not> truthy j \<longleftrightarrow> j \<in> {JUndefined, JNull, JBool False, JNum ''0'', JStr []}"
  by (cases j) auto

lemma author_required:
  assumes "k \<in> {''firstName'', ''birthDate''}" and "\<not> truthy (body k)"
  shows "createAuthor st rnd body = (st, BadRequest ''firstName and birthDate are required'')"
    and "updateAuthorById st i body
           = (st, BadRequest ''firstName and birthDate are required'')"
  using assms by (auto simp: createAuthor_def updateAuthorById_def)

lemma genre_required:
  assumes "\<not> truthy (body ''name'')"
  shows "createGenre st rnd body = (st, BadRequest ''name is required'')"
    and "updateGenreById st i body = (st, BadRequest ''name is required'')"
  using assms by (auto simp: createGenre_def updateGenreById_def)

lemma copy_required:
  assumes "k \<in> {''bookId'', ''imprint'', ''status''}" and "\<not> truthy (body k)"
  shows "createBookCopy st rnd body
           = (st, BadRequest ''bookId, imprint, and status are required'')"
    and "updateBookCopyById st i body
           = (st, BadRequest ''bookId, imprint, and status are required'')"
  using assms by (auto simp: createBookCopy_def updateBookCopyById_def)

lemma book_required:
  assumes "k \<in> {''title'', ''authorIds'', ''genreIds'', ''isbn'', ''summary''}"
    and "\<not> truthy (body k)"
  shows "createBook st rnd body
           = (st, BadRequest ''title, authorIds, genreIds, isbn, and summary are required'')"
    and "updateBookById st i body
           = (st, BadRequest ''title, authorIds, genreIds, isbn, and summary are required'')"
  using assms by (auto simp: createBook_def updateBookById_def)

text \<open>
  Claim C9. The falsy payload values are \<^verbatim>\<open>undefined\<close> (an absent field), \<^verbatim>\<open>null\<close>, \<^verbatim>\<open>false\<close>,
  zero and the empty string. For every kind, a create or an update whose payload has a
  falsy value in a required field answers with status 400 and the required-fields message,
  leaves the storage as it was, and answers exactly as it does for the payload with that
  field removed.
\<close>

theorem falsy_required_field_rejected:
  "(\<not> truthy j \<longleftrightarrow> j \<in> {JUndefined, JNull, JBool False, JNum ''0'', JStr []})
   \<and> (k \<in> {''firstName'', ''birthDate''} \<and> \<not> truthy (body k) \<longrightarrow>
        createAuthor st rnd body = (st, BadRequest ''firstName and birthDate are required'')
        \<and> updateAuthorById st i body
            = (st, BadRequest ''firstName and birthDate are required'')
        \<and> createAuthor st rnd body = createAuthor st rnd (body(k := JUndefined))
        \<and> updateAuthorById st i body = updateAuthorById st i (body(k := JUndefined)))
   \<and> (\<not> truthy (body ''name'') \<longrightarrow>
        createGenre st rnd body = (st, BadRequest ''name is required'')
        \<and> updateGenreById st i body = (st, BadRequest ''name is required'')
        \<and> createGenre st rnd body = createGenre st rnd (body(''name'' := JUndefined))
        \<and> updateGenreById st i body = updateGenreById st i (body(''name'' := JUndefined)))
   \<and> (k \<in> {''bookId'', ''imprint'', ''status''} \<and> \<not> truthy (body k) \<longrightarrow>
        createBookCopy st rnd body
          = (st, BadRequest ''bookId, imprint, and status are required'')
        \<and> updateBookCopyById st i body
          = (st, BadRequest ''bookId, imprint, and status are required'')
        \<and> createBookCopy st rnd body = createBookCopy st rnd (body(k := JUndefined))
        \<and> updateBookCopyById st i body = updateBookCopyById st i (body(k := JUndefined)))
   \<and> (k \<in> {''title'', ''authorIds'', ''genreIds'', ''isbn'', ''summary''}
        \<and> \<not> truthy (body k) \<longrightarrow>
        createBook st rnd body
          = (st, BadRequest ''title, authorIds, genreIds, isbn, and summary are required'')
        \<and> updateBookById st i body
          = (st, BadRequest ''title, authorIds, genreIds, isbn, and summary are required'')
        \<and> createBook st rnd body = createBook st rnd (body(k := JUndefined))
        \<and> updateBookById st i body = updateBookById st i (body(k := JUndefined)))"
proof (intro conjI impI)
  show "(\<not> truthy j) = (j \<in> {JUndefined, JNull, JBool False, JNum ''0'', JStr []})"
    by (rule falsy_values)
next
  assume h: "k \<in> {''firstName'', ''birthDate''} \<and> \<not> truthy (body k)"
  then have a: "k \<in> {''firstName'', ''birthDate''}" and f: "\<not> truthy (body k)" by blast+
  have f': "\<not> truthy ((body(k := JUndefined)) k)" by simp
  show c: "createAuthor st rnd body
      = (st, BadRequest ''firstName and birthDate are required'')"
    by (rule author_required(1)[where k = k and body = body, OF a f])
  show u: "updateAuthorById st i body
      = (st, BadRequest ''firstName and birthDate are required'')"
    by (rule author_required(2)[where k = k and body = body, OF a f])
  show "createAuthor st rnd body = createAuthor st rnd (body(k := JUndefined))"
    unfolding c author_required(1)[where k = k and body = "body(k := JUndefined)", OF a f'] by (rule refl)
  show "updateAuthorById st i body = updateAuthorById st i (body(k := JUndefined))"
    unfolding u author_required(2)[where k = k and body = "body(k := JUndefined)", OF a f'] by (rule refl)
next
  assume f: "\<not> truthy (body ''name'')"
  have f': "\<not> truthy ((body(''name'' := JUndefined)) ''name'')" by simp
  show c: "createGenre st rnd body = (st, BadRequest ''name is required'')"
    by (rule genre_required(1)[where body = body, OF f])
  show u: "updateGenreById st i body = (st, BadRequest ''name is required'')"
    by (rule genre_required(2)[where body = body, OF f])
  show "createGenre st rnd body = createGenre st rnd (body(''name'' := JUndefined))"
    unfolding c genre_required(1)[where body = "body(''name'' := JUndefined)", OF f'] by (rule refl)
  show "updateGenreById st i body = updateGenreById st i (body(''name'' := JUndefined))"
    unfolding u genre_required(2)[where body = "body(''name'' := JUndefined)", OF f'] by (rule refl)
next
  assume h: "k \<in> {''bookId'', ''imprint'', ''status''} \<and> \<not> truthy (body k)"
  then have a: "k \<in> {''bookId'', ''imprint'', ''status''}" and f: "\<not> truthy (body k)"
    by blast+
  have f': "\<not> truthy ((body(k := JUndefined)) k)" by simp
  show c: "createBookCopy st rnd body
      = (st, BadRequest ''bookId, imprint, and status are required'')"
    by (rule copy_required(1)[where k = k and body = body, OF a f])
  show u: "updateBookCopyById st i body
      = (st, BadRequest ''bookId, imprint, and status are required'')"
    by (rule copy_required(2)[where k = k and body = body, OF a f])
  show "createBookCopy st rnd body = createBookCopy st rnd (body(k := JUndefined))"
    unfolding c copy_required(1)[where k = k and body = "body(k := JUndefined)", OF a f'] by (rule refl)
  show "updateBookCopyById st i body = updateBookCopyById st i (body(k := JUndefined))"
    unfolding u copy_required(2)[where k = k and body = "body(k := JUndefined)", OF a f'] by (rule refl)
next
  assume h: "k \<in> {''title'', ''authorIds'', ''genreIds'', ''isbn'', ''summary''}
        \<and> \<not> truthy (body k)"
  then have a: "k \<in> {''title'', ''authorIds'', ''genreIds'', ''isbn'', ''summary''}"
    and f: "\<not> truthy (body k)"
    by blast+
  have f': "\<not> truthy ((body(k := JUndefined)) k)" by simp
  show c: "createBook st rnd body
      = (st, BadRequest ''title, authorIds, genreIds, isbn, and summary are required'')"
    by (rule book_required(1)[where k = k and body = body, OF a f])
  show u: "updateBookById st i body
      = (st, BadRequest ''title, authorIds, genreIds, isbn, and summary are required'')"
    by (rule book_required(2)[where k = k and body = body, OF a f])
  show "createBook st rnd body = createBook st rnd (body(k := JUndefined))"
    unfolding c book_required(1)[where k = k and body = "body(k := JUndefined)", OF a f'] by (rule refl)
  show "updateBookById st i body = updateBookById st i (body(k := JUndefined))"
    unfolding u book_required(2)[where k = k and body = "body(k := JUndefined)", OF a f'] by (rule refl)
qed

theorem falsy_required_field_rejected_witness:
  "createGenre (initializeData empty_store) ''0.i'' (body_of [(''name'', JStr [])])
     = (initializeData empty_store, BadRequest ''name is required'')
   \<and> createAuthor (initializeData empty_store) ''0.i''
       (body_of [(''firstName'', JStr []), (''birthDate'', JStr ''1980-01-01'')])
     = (initializeData empty_store, BadRequest ''firstName and birthDate are required'')
   \<and> updateBookById (initializeData empty_store) ''book1''
       (body_of [(''title'', JStr ''X''), (''authorIds'', JArr [JStr ''auth1'']),
                 (''genreIds'', JArr [JStr ''gen1'']), (''isbn'', JNum ''0''),
                 (''summary'', JStr ''s'')])
     = (initializeData empty_store,
        BadRequest ''title, authorIds, genreIds, isbn, and summary are required'')"
proof -
  let ?S = "initializeData empty_store"
  let ?g = "body_of [(''name'', JStr [])]"
  let ?a = "body_of [(''firstName'', JStr []), (''birthDate'', JStr ''1980-01-01'')]"
  let ?b = "body_of [(''title'', JStr ''X''), (''authorIds'', JArr [JStr ''auth1'']),
                 (''genreIds'', JArr [JStr ''gen1'']), (''isbn'', JNum ''0''),
                 (''summary'', JStr ''s'')]"
  have hg: "\<not> truthy (?g ''name'')"
    by (simp add: body_of_def)
  have ha: "''firstName'' \<in> {''firstName'', ''birthDate''} \<and> \<not> truthy (?a ''firstName'')"
    by (simp add: body_of_def)
  have hb: "''isbn'' \<in> {''title'', ''authorIds'', ''genreIds'', ''isbn'', ''summary''}
        \<and> \<not> truthy (?b ''isbn'')"
    by (simp add: body_of_def)
  have 1: "createGenre ?S ''0.i'' ?g = (?S, BadRequest ''name is required'')"
    by (rule falsy_required_field_rejected[where body = ?g,
          THEN conjunct2, THEN conjunct2, THEN conjunct1, THEN mp, OF hg, THEN conjunct1])
  have 2: "createAuthor ?S ''0.i'' ?a
      = (?S, BadRequest ''firstName and birthDate are required'')"
    by (rule falsy_required_field_rejected[where k = "''firstName''" and body = ?a,
          THEN conjunct2, THEN conjunct1, THEN mp, OF ha, THEN conjunct1])
  have 3: "updateBookById ?S ''book1'' ?b
      = (?S, BadRequest ''title, authorIds, genreIds, isbn, and summary are required'')"
    by (rule falsy_required_field_rejected[where k = "''isbn''" and body = ?b,
          THEN conjunct2, THEN conjunct2, THEN conjunct2, THEN conjunct2, THEN mp, OF hb,
          THEN conjunct2, THEN conjunct1])
  from 1 2 3 show ?thesis by (intro conjI)
qed

section \<open>Facts about what an update leaves alone\<close>

lemma same_except_refl: "same_except ko xs xs"
  by (simp add: same_except_def)

lemma same_except_update: "same_except (Some k) xs (xs[k := y])"
  by (simp add: same_except_def)

lemma updateAuthor_frame:
  "same_except (findIndex (\<lambda>r. author_id r = i) (authors st)) (authors st)
      (authors (fst (updateAuthor st i p)))
   \<and> books (fst (updateAuthor st i p)) = books st
   \<and> genres (fst (updateAuthor st i p)) = genres st
   \<and> bookCopies (fst (updateAuthor st i p)) = bookCopies st"
  by (simp add: updateAuthor_def Let_def same_except_refl same_except_update
      split: option.splits)

lemma updateGenre_frame:
  "same_except (findIndex (\<lambda>r. genre_id r = i) (genres st)) (genres st)
      (genres (fst (updateGenre st i p)))
   \<and> books (fst (updateGenre st i p)) = books st
   \<and> authors (fst (updateGenre st i p)) = authors st
   \<and> bookCopies (fst (updateGenre st i p)) = bookCopies st"
  by (simp add: updateGenre_def Let_def same_except_refl same_except_update
      split: option.splits)

lemma updateBookCopy_frame:
  "same_except (findIndex (\<lambda>r. copy_id r = i) (bookCopies st)) (bookCopies st)
      (bookCopies (fst (updateBookCopy st i p)))
   \<and> books (fst (updateBookCopy st i p)) = books st
   \<and> authors (fst (updateBookCopy st i p)) = authors st
   \<and> genres (fst (updateBookCopy st i p)) = genres st"
  by (simp add: updateBookCopy_def Let_def same_except_refl same_except_update
      split: option.splits)

lemma updateBook_frame:
  "same_except (findIndex (\<lambda>r. book_id r = i) (books st)) (books st)
      (books (fst (updateBook st i p)))
   \<and> authors (fst (updateBook st i p)) = authors st
   \<and> genres (fst (updateBook st i p)) = genres st
   \<and> bookCopies (fst (updateBook st i p)) = bookCopies st"
  by (simp add: updateBook_def Let_def same_except_refl same_except_update
      split: option.splits)

lemma fst_case_updated:
  "fst (case r of (st', None) \<Rightarrow> (st', e) | (st', Some x) \<Rightarrow> (st', g x)) = fst r"
  by (cases r) (auto split: option.splits)

lemma fst_case_joined:
  "fst (case r of None \<Rightarrow> (st, e) | Some x \<Rightarrow> (st, g x)) = st"
  by (cases r) simp_all

lemma updateAuthorById_state:
  "fst (updateAuthorById st i body) = st
   \<or> (\<exists>p. fst (updateAuthorById st i body) = fst (updateAuthor st i p))"
  by (simp add: updateAuthorById_def fst_case_updated) blast

lemma updateGenreById_state:
  "fst (updateGenreById st i body) = st
   \<or> (\<exists>p. fst (updateGenreById st i body) = fst (updateGenre st i p))"
  by (simp add: updateGenreById_def fst_case_updated) blast

lemma updateBookCopyById_state:
  "fst (updateBookCopyById st i body) = st
   \<or> (\<exists>p. fst (updateBookCopyById st i body) = fst (updateBookCopy st i p))"
  by (simp add: updateBookCopyById_def fst_case_updated) blast

lemma updateBookById_state:
  "fst (updateBookById st i body) = st
   \<or> (\<exists>p. fst (updateBookById st i body) = fst (updateBook st i p))"
  by (simp add: updateBookById_def Let_def fst_case_updated fst_case_joined) blast

lemma updateAuthorById_frame:
  "same_except (findIndex (\<lambda>r. author_id r = i) (authors st)) (authors st)
      (authors (fst (updateAuthorById st i body)))
   \<and> books (fst (updateAuthorById st i body)) = books st
   \<and> genres (fst (updateAuthorById st i body)) = genres st
   \<and> bookCopies (fst (updateAuthorById st i body)) = bookCopies st"
  using updateAuthorById_state[of st i body] updateAuthor_frame[of i st]
  by (auto simp: same_except_refl)

lemma updateGenreById_frame:
  "same_except (findIndex (\<lambda>r. genre_id r = i) (genres st)) (genres st)
      (genres (fst (updateGenreById st i body)))
   \<and> books (fst (updateGenreById st i body)) = books st
   \<and> authors (fst (updateGenreById st i body)) = authors st
   \<and> bookCopies (fst (updateGenreById st i body)) = bookCopies st"
  using updateGenreById_state[of st i body] updateGenre_frame[of i st]
  by (auto simp: same_except_refl)

lemma updateBookCopyById_frame:
  "same_except (findIndex (\<lambda>r. copy_id r = i) (bookCopies st)) (bookCopies st)
      (bookCopies (fst (updateBookCopyById st i body)))
   \<and> books (fst (updateBookCopyById st i body)) = books st
   \<and> authors (fst (updateBookCopyById st i body)) = authors st
   \<and> genres (fst (updateBookCopyById st i body)) = genres st"
  using updateBookCopyById_state[of st i body] updateBookCopy_frame[of i st]
  by (auto simp: same_except_refl)

lemma updateBookById_frame:
  "same_except (findIndex (\<lambda>r. book_id r = i) (books st)) (books st)
      (books (fst (updateBookById st i body)))
   \<and> authors (fst (updateBookById st i body)) = authors st
   \<and> genres (fst (updateBookById st i body)) = genres st
   \<and> bookCopies (fst (updateBookById st i body)) = bookCopies st"
  using updateBookById_state[of st i body] updateBook_frame[of i st]
  by (auto simp: same_except_refl)

section \<open>What an update leaves alone\<close>

text \<open>
  Claim C10. For each kind, an update, in the storage operation with any partial object and
  in the controller with any payload and whatever the response, leaves the number of rows of
  the targeted table as it is, leaves every row of that table other than the first row
  whose id is the targeted id as it is, and leaves the three other tables as they are.
\<close>

theorem update_frame:
  "(same_except (findIndex (\<lambda>r. author_id r = i) (authors st)) (authors st)
      (authors (fst (updateAuthor st i pa)))
    \<and> books (fst (updateAuthor st i pa)) = books st
    \<and> genres (fst (updateAuthor st i pa)) = genres st
    \<and> bookCopies (fst (updateAuthor st i pa)) = bookCopies st)
   \<and> (same_except (findIndex (\<lambda>r. genre_id r = i) (genres st)) (genres st)
      (genres (fst (updateGenre st i pg)))
    \<and> books (fst (updateGenre st i pg)) = books st
    \<and> authors (fst (updateGenre st i pg)) = authors st
    \<and> bookCopies (fst (updateGenre st i pg)) = bookCopies st)
   \<and> (same_except (findIndex (\<lambda>r. copy_id r = i) (bookCopies st)) (bookCopies st)
      (bookCopies (fst (updateBookCopy st i pc)))
    \<and> books (fst (updateBookCopy st i pc)) = books st
    \<and> authors (fst (updateBookCopy st i pc)) = authors st
    \<and> genres (fst (updateBookCopy st i pc)) = genres st)
   \<and> (same_except (findIndex (\<lambda>r. book_id r = i) (books st)) (books st)
      (books (fst (updateBook st i pb)))
    \<and> authors (fst (updateBook st i pb)) = authors st
    \<and> genres (fst (updateBook st i pb)) = genres st
    \<and> bookCopies (fst (updateBook st i pb)) = bookCopies st)
   \<and> (same_except (findIndex (\<lambda>r. author_id r = i) (authors st)) (authors st)
      (authors (fst (updateAuthorById st i body)))
    \<and> books (fst (updateAuthorById st i body)) = books st
    \<and> genres (fst (updateAuthorById st i body)) = genres st
    \<and> bookCopies (fst (updateAuthorById st i body)) = bookCopies st)
   \<and> (same_except (findIndex (\<lambda>r. genre_id r = i) (genres st)) (genres st)
      (genres (fst (updateGenreById st i body)))
    \<and> books (fst (updateGenreById st i body)) = books st
    \<and> authors (fst (updateGenreById st i body)) = authors st
    \<and> bookCopies (fst (updateGenreById st i body)) = bookCopies st)
   \<and> (same_except (findIndex (\<lambda>r. copy_id r = i) (bookCopies st)) (bookCopies st)
      (bookCopies (fst (updateBookCopyById st i body)))
    \<and> books (fst (updateBookCopyById st i body)) = books st
    \<and> authors (fst (updateBookCopyById st i body)) = authors st
    \<and> genres (fst (updateBookCopyById st i body)) = genres st)
   \<and> (same_except (findIndex (\<lambda>r. book_id r = i) (books st)) (books st)
      (books (fst (updateBookById st i body)))
    \<and> authors (fst (updateBookById st i body)) = authors st
    \<and> genres (fst (updateBookById st i body)) = genres st
    \<and> bookCopies (fst (updateBookById st i body)) = bookCopies st)"
  by (intro conjI updateAuthor_frame updateGenre_frame updateBookCopy_frame updateBook_frame
      updateAuthorById_frame updateGenreById_frame updateBookCopyById_frame
      updateBookById_frame)

theorem update_frame_witness:
  "findIndex (\<lambda>r. author_id r = ''auth1'') (authors (initializeData empty_store)) = Some 0
   \<and> length (authors (fst (updateAuthorById (initializeData empty_store) ''auth1''
        (body_of [(''firstName'', JStr ''I.''), (''birthDate'', JStr ''1920'')])))) = 2
   \<and> authors (fst (updateAuthorById (initializeData empty_store) ''auth1''
        (body_of [(''firstName'', JStr ''I.''), (''birthDate'', JStr ''1920'')]))) ! 1
      = \<lparr>author_id = ''auth2'', firstName = JStr ''Ursula'', lastName = JStr ''K. Le Guin'',
          birthDate = JStr ''1929-10-21'', deathDate = JStr ''2018-01-22''\<rparr>
   \<and> books (fst (updateAuthorById (initializeData empty_store) ''auth1''
        (body_of [(''firstName'', JStr ''I.''), (''birthDate'', JStr ''1920'')])))
      = books (initializeData empty_store)"
proof -
  let ?S = "initializeData empty_store"
  let ?b = "body_of [(''firstName'', JStr ''I.''), (''birthDate'', JStr ''1920'')]"
  note t = update_frame[where st = ?S and i = "''auth1''" and body = ?b,
      THEN conjunct2, THEN conjunct2, THEN conjunct2, THEN conjunct2, THEN conjunct1]
  have k: "findIndex (\<lambda>r. author_id r = ''auth1'') (authors ?S) = Some 0"
    by (simp add: sample_store)
  from t have s: "same_except (Some 0) (authors ?S) (authors (fst (updateAuthorById ?S ''auth1'' ?b)))"
    unfolding k by (rule conjunct1)
  from s have 1: "length (authors (fst (updateAuthorById ?S ''auth1'' ?b))) = 2"
    by (simp add: same_except_def sample_store)
  from s have "\<forall>k<length (authors ?S). Some (0::nat) \<noteq> Some k \<longrightarrow>
      authors (fst (updateAuthorById ?S ''auth1'' ?b)) ! k = authors ?S ! k"
    unfolding same_except_def by (rule conjunct2)
  then have "authors (fst (updateAuthorById ?S ''auth1'' ?b)) ! 1 = authors ?S ! 1"
    by (simp add: sample_store)
  then have 2: "authors (fst (updateAuthorById ?S ''auth1'' ?b)) ! 1
      = \<lparr>author_id = ''auth2'', firstName = JStr ''Ursula'', lastName = JStr ''K. Le Guin'',
          birthDate = JStr ''1929-10-21'', deathDate = JStr ''2018-01-22''\<rparr>"
    by (simp add: sample_store)
  from t have 3: "books (fst (updateAuthorById ?S ''auth1'' ?b)) = books ?S"
    by blast
  from k 1 2 3 show ?thesis by (intro conjI)
qed

end
